theory Spec2Isabelle
  imports Main "HOL-Library.AList" "HOL-Library.Code_Target_Nat"
begin

section \<open>Documents and aggregation pipelines\<close>

text \<open>
  The controllers of the video backend do most of their work by handing an aggregation
  pipeline to the document store. The pipelines are data in the source (arrays of stage
  objects), so they are data here: a value type for BSON values, an expression type for
  the operators the controllers use (\<open>$size\<close>, \<open>$in\<close>, \<open>$cond\<close>, \<open>$first\<close>, field
  paths and literals) and a stage type for \<open>$match\<close>, \<open>$lookup\<close>, \<open>$addFields\<close>,
  \<open>$project\<close>, \<open>$sort\<close>, \<open>$unwind\<close> and \<open>$search\<close>. A field path \<open>"$a.b"\<close> is
  written \<open>Field [''a'', ''b'']\<close>; a string without the dollar sign is a string literal,
  as it is for the store.

  An object identifier is kept as the string its \<open>toString()\<close> gives. A string of
  a request becomes an identifier by a cast (\<open>new mongoose.Types.ObjectId(s)\<close>, or the
  cast mongoose applies to the argument of \<open>findById\<close> and to the fields of a filter
  or of a pushed subdocument); the cast is a library function and a parameter of the
  model.
\<close>

datatype val =
    Missing
  | Null
  | B bool
  | N int
  | S string
  | Id string
  | Arr "val list"
  | Doc "(string \<times> val) list"

type_synonym doc = "(string \<times> val) list"

definition field :: "string \<Rightarrow> doc \<Rightarrow> val" where
  "field k d = (case map_of d k of None \<Rightarrow> Missing | Some v \<Rightarrow> v)"

text \<open>A field whose new value is missing is removed, as \<open>$addFields\<close> does.\<close>

definition setField :: "string \<Rightarrow> val \<Rightarrow> doc \<Rightarrow> doc" where
  "setField k v d = (if v = Missing then AList.delete k d else AList.update k v d)"

text \<open>Reading a dotted path; through an array the path is read in every element.\<close>

fun getPath :: "string list \<Rightarrow> val \<Rightarrow> val" where
  "getPath [] v = v"
| "getPath (k # ks) (Doc d) = getPath ks (field k d)"
| "getPath (k # ks) (Arr xs) = Arr (filter (\<lambda>v. v \<noteq> Missing) (map (getPath (k # ks)) xs))"
| "getPath (k # ks) v = Missing"

datatype mongoError = SizeNotArray | InNotArray | FirstNotArray

datatype expr =
    Field "string list"
  | Lit val
  | Size expr
  | In expr expr
  | Cond expr expr expr
  | First expr

definition truthy :: "val \<Rightarrow> bool" where
  "truthy v = (v \<noteq> Missing \<and> v \<noteq> Null \<and> v \<noteq> B False \<and> v \<noteq> N 0)"

fun evalExpr :: "doc \<Rightarrow> expr \<Rightarrow> mongoError + val" where
  "evalExpr d (Field p) = Inr (getPath p (Doc d))"
| "evalExpr d (Lit v) = Inr v"
| "evalExpr d (Size e) =
     (case evalExpr d e of
        Inl err \<Rightarrow> Inl err
      | Inr (Arr xs) \<Rightarrow> Inr (N (int (length xs)))
      | Inr _ \<Rightarrow> Inl SizeNotArray)"
| "evalExpr d (In e1 e2) =
     (case evalExpr d e1 of
        Inl err \<Rightarrow> Inl err
      | Inr x \<Rightarrow>
          (case evalExpr d e2 of
             Inl err \<Rightarrow> Inl err
           | Inr (Arr xs) \<Rightarrow> Inr (B (x \<in> set xs))
           | Inr _ \<Rightarrow> Inl InNotArray))"
| "evalExpr d (Cond c t e) =
     (case evalExpr d c of
        Inl err \<Rightarrow> Inl err
      | Inr b \<Rightarrow> if truthy b then evalExpr d t else evalExpr d e)"
| "evalExpr d (First e) =
     (case evalExpr d e of
        Inl err \<Rightarrow> Inl err
      | Inr (Arr []) \<Rightarrow> Inr Missing
      | Inr (Arr (x # xs)) \<Rightarrow> Inr x
      | Inr Missing \<Rightarrow> Inr Null
      | Inr Null \<Rightarrow> Inr Null
      | Inr _ \<Rightarrow> Inl FirstNotArray)"

datatype stage =
    Search string string "string list"
  | Match "(string \<times> val) list"
  | Sort string int
  | Lookup string string string string "stage list"
  | Unwind string
  | AddFields "(string \<times> expr) list"
  | Project "string list list"

text \<open>
  What the store itself supplies: its collections by name (a name nobody wrote to is an
  empty collection), the order \<open>$sort\<close> compares values with, and the full-text index
  behind \<open>$search\<close>.
\<close>

record mongo =
  coll :: "string \<Rightarrow> doc list"
  bsonLe :: "val \<Rightarrow> val \<Rightarrow> bool"
  textSearch :: "string \<Rightarrow> string \<Rightarrow> string list \<Rightarrow> doc \<Rightarrow> bool"

definition matches :: "(string \<times> val) list \<Rightarrow> doc \<Rightarrow> bool" where
  "matches conds d = list_all (\<lambda>(k, v). field k d = v) conds"

fun insortDoc :: "(doc \<Rightarrow> doc \<Rightarrow> bool) \<Rightarrow> doc \<Rightarrow> doc list \<Rightarrow> doc list" where
  "insortDoc le x [] = [x]"
| "insortDoc le x (y # ys) = (if le x y then x # y # ys else y # insortDoc le x ys)"

definition sortDocs :: "(val \<Rightarrow> val \<Rightarrow> bool) \<Rightarrow> string \<Rightarrow> int \<Rightarrow> doc list \<Rightarrow> doc list" where
  "sortDocs le k dir ds =
     foldr (insortDoc (\<lambda>a b. if dir = 1 then le (field k a) (field k b)
                              else le (field k b) (field k a))) ds []"

definition unwindDoc :: "string \<Rightarrow> doc \<Rightarrow> doc list" where
  "unwindDoc k d =
     (case field k d of
        Arr xs \<Rightarrow> map (\<lambda>x. setField k x d) xs
      | Missing \<Rightarrow> []
      | Null \<Rightarrow> []
      | _ \<Rightarrow> [d])"

fun evalFields :: "doc \<Rightarrow> (string \<times> expr) list \<Rightarrow> mongoError + (string \<times> val) list" where
  "evalFields d [] = Inr []"
| "evalFields d ((k, e) # fs) =
     (case evalExpr d e of
        Inl err \<Rightarrow> Inl err
      | Inr v \<Rightarrow> (case evalFields d fs of Inl err \<Rightarrow> Inl err | Inr kvs \<Rightarrow> Inr ((k, v) # kvs)))"

definition addFields :: "(string \<times> expr) list \<Rightarrow> doc \<Rightarrow> mongoError + doc" where
  "addFields fs d =
     (case evalFields d fs of
        Inl err \<Rightarrow> Inl err
      | Inr kvs \<Rightarrow> Inr (foldl (\<lambda>acc (k, v). setField k v acc) d kvs))"

text \<open>
  An inclusion projection keeps \<open>_id\<close> and the listed paths. The controllers list paths
  of one or two segments only (\<open>"avatar.url"\<close>, \<open>"video.url"\<close>).
\<close>

definition subKeys :: "string \<Rightarrow> string list list \<Rightarrow> string list" where
  "subKeys k ps = concat (map (\<lambda>p. case p of [a, b] \<Rightarrow> if a = k then [b] else [] | _ \<Rightarrow> []) ps)"

definition projectField :: "string list list \<Rightarrow> string \<times> val \<Rightarrow> doc" where
  "projectField ps kv =
     (case kv of (k, v) \<Rightarrow>
        if k = ''_id'' \<or> [k] \<in> set ps then [(k, v)]
        else (case v of
                Doc sub \<Rightarrow>
                  (if subKeys k ps = [] then []
                   else [(k, Doc (filter (\<lambda>(k2, w). k2 \<in> set (subKeys k ps)) sub))])
              | _ \<Rightarrow> []))"

definition projectDoc :: "string list list \<Rightarrow> doc \<Rightarrow> doc" where
  "projectDoc ps d = concat (map (projectField ps) d)"

fun mapE :: "('a \<Rightarrow> 'e + 'b) \<Rightarrow> 'a list \<Rightarrow> 'e + 'b list" where
  "mapE f [] = Inr []"
| "mapE f (x # xs) =
     (case f x of
        Inl err \<Rightarrow> Inl err
      | Inr y \<Rightarrow> (case mapE f xs of Inl err \<Rightarrow> Inl err | Inr ys \<Rightarrow> Inr (y # ys)))"

fun chain :: "('a \<Rightarrow> 'e + 'a) list \<Rightarrow> 'a \<Rightarrow> 'e + 'a" where
  "chain [] x = Inr x"
| "chain (f # fs) x = (case f x of Inl err \<Rightarrow> Inl err | Inr y \<Rightarrow> chain fs y)"

primrec runStage :: "mongo \<Rightarrow> stage \<Rightarrow> doc list \<Rightarrow> mongoError + doc list" where
  "runStage M (Search idx q paths) ds = Inr (filter (textSearch M idx q paths) ds)"
| "runStage M (Match conds) ds = Inr (filter (matches conds) ds)"
| "runStage M (Sort k dir) ds = Inr (sortDocs (bsonLe M) k dir ds)"
| "runStage M (Lookup from localField foreignField as sub) ds =
     mapE (\<lambda>d. case chain (map (runStage M) sub)
                       (filter (\<lambda>f. field foreignField f = field localField d) (coll M from)) of
                 Inl err \<Rightarrow> Inl err
               | Inr rs \<Rightarrow> Inr (setField as (Arr (map Doc rs)) d)) ds"
| "runStage M (Unwind k) ds = Inr (concat (map (unwindDoc k) ds))"
| "runStage M (AddFields fs) ds = mapE (addFields fs) ds"
| "runStage M (Project ps) ds = Inr (map (projectDoc ps) ds)"

definition runPipeline :: "mongo \<Rightarrow> stage list \<Rightarrow> doc list \<Rightarrow> mongoError + doc list" where
  "runPipeline M stages ds = chain (map (runStage M) stages) ds"


section \<open>The collections\<close>

text \<open>
  The fields are the ones the controllers read and write. A stored media object is a
  pair of the provider's file identifier and its URL; timestamps are numbers.
\<close>

record media =
  fileId :: string
  url :: string

record video =
  v_id :: string
  v_video :: media
  v_thumbnail :: media
  v_title :: string
  v_description :: string
  v_duration :: int
  v_views :: int
  v_isPublished :: bool
  v_owner :: string
  v_createdAt :: int

record historyEntry =
  h_video :: string
  h_watchedAt :: int

record user =
  u_id :: string
  u_username :: string
  u_email :: string
  u_fullName :: string
  u_avatar :: media
  u_coverImage :: media
  u_watchHistory :: "historyEntry list"

record like =
  l_video :: string
  l_likedBy :: string

record subscription =
  s_subscriber :: string
  s_channel :: string

record comment =
  c_video :: string
  c_owner :: string
  c_content :: string

record store =
  videos :: "video list"
  users :: "user list"
  likes :: "like list"
  subscriptions :: "subscription list"
  comments :: "comment list"

definition mediaDoc :: "media \<Rightarrow> val" where
  "mediaDoc m = Doc [(''fileId'', S (fileId m)), (''url'', S (url m))]"

definition videoDoc :: "video \<Rightarrow> doc" where
  "videoDoc v =
     [(''_id'', Id (v_id v)),
      (''video'', mediaDoc (v_video v)),
      (''thumbnail'', mediaDoc (v_thumbnail v)),
      (''title'', S (v_title v)),
      (''description'', S (v_description v)),
      (''duration'', N (v_duration v)),
      (''views'', N (v_views v)),
      (''isPublished'', B (v_isPublished v)),
      (''owner'', Id (v_owner v)),
      (''createdAt'', N (v_createdAt v))]"

definition historyDoc :: "historyEntry \<Rightarrow> val" where
  "historyDoc h = Doc [(''video'', Id (h_video h)), (''watchedAt'', N (h_watchedAt h))]"

definition userDoc :: "user \<Rightarrow> doc" where
  "userDoc u =
     [(''_id'', Id (u_id u)),
      (''username'', S (u_username u)),
      (''email'', S (u_email u)),
      (''fullName'', S (u_fullName u)),
      (''avatar'', mediaDoc (u_avatar u)),
      (''coverImage'', mediaDoc (u_coverImage u)),
      (''watchHistory'', Arr (map historyDoc (u_watchHistory u)))]"

definition likeDoc :: "like \<Rightarrow> doc" where
  "likeDoc l = [(''video'', Id (l_video l)), (''likedBy'', Id (l_likedBy l))]"

definition subscriptionDoc :: "subscription \<Rightarrow> doc" where
  "subscriptionDoc s = [(''subscriber'', Id (s_subscriber s)), (''channel'', Id (s_channel s))]"

definition commentDoc :: "comment \<Rightarrow> doc" where
  "commentDoc c =
     [(''video'', Id (c_video c)), (''owner'', Id (c_owner c)), (''content'', S (c_content c))]"

text \<open>
  The collection names are the ones the lookups of the video controller join on. A
  lookup from any other name reads an empty collection.
\<close>

definition collections :: "store \<Rightarrow> string \<Rightarrow> doc list" where
  "collections s name =
     (if name = ''videos'' then map videoDoc (videos s)
      else if name = ''users'' then map userDoc (users s)
      else if name = ''likes'' then map likeDoc (likes s)
      else if name = ''subscriptions'' then map subscriptionDoc (subscriptions s)
      else if name = ''comments'' then map commentDoc (comments s)
      else [])"

section \<open>Libraries, requests and replies\<close>

text \<open>
  A number as \<open>parseInt\<close> gives it: not a number (\<open>None\<close>), or a double that is
  infinite or a whole number, kept as its sign (true for minus) and its magnitude.
\<close>

datatype double =
    Finite bool nat
  | Infinity bool

type_synonym number = "double option"

text \<open>
  What the controllers import from libraries is a parameter of the model: mongoose's
  \<open>isValidObjectId\<close>, the cast of a string to an object identifier (\<open>castId s\<close> is
  the \<open>toString()\<close> of the identifier the string \<open>s\<close> casts to), the store's value
  order and text index, and the pagination plugin (\<open>aggregatePaginate\<close>, given the
  parsed page and limit and the documents the pipeline yields; \<open>None\<close> is \<open>NaN\<close>).
\<close>

record env =
  isValidObjectId :: "string \<Rightarrow> bool"
  castId :: "string \<Rightarrow> string"
  valueLe :: "val \<Rightarrow> val \<Rightarrow> bool"
  searchIndex :: "string \<Rightarrow> string \<Rightarrow> string list \<Rightarrow> doc \<Rightarrow> bool"
  aggregatePaginate :: "number \<Rightarrow> number \<Rightarrow> doc list \<Rightarrow> doc list"

definition mongoOf :: "env \<Rightarrow> store \<Rightarrow> mongo" where
  "mongoOf E s = \<lparr>coll = collections s, bsonLe = valueLe E, textSearch = searchIndex E\<rparr>"

datatype error =
    ApiError nat string
  | MongoError mongoError
  | CastError string

datatype payload =
    Undefined
  | PNull
  | PDoc doc
  | PPage "doc list"
  | PVideoUser video user

datatype apiResponse = ApiResponse nat payload string

text \<open>A reply is \<open>res.status(n).json(r)\<close>; a thrown error leaves the handler as \<open>Inl\<close>.\<close>

type_synonym reply = "nat \<times> apiResponse"
type_synonym outcome = "error + reply"

text \<open>
  The world a handler runs in: the store, and the log of the calls made to the store and
  to the media provider, in the order they were issued.
\<close>

datatype call =
    Aggregate string
  | AggregatePaginate string
  | FindById string string
  | FindByIdAndUpdate string string
  | FindByIdAndDelete string string
  | DeleteMany string string
  | Save string string
  | Destroy string

record world =
  db :: store
  calls :: "call list"

definition logCall :: "call \<Rightarrow> world \<Rightarrow> world" where
  "logCall c w = w\<lparr>calls := calls w @ [c]\<rparr>"

subsection \<open>JavaScript helpers\<close>

text \<open>
  A string is a list of characters with codes below 256. \<open>trim\<close> and \<open>parseInt\<close>
  skip the white space and line terminators of the language, of which six control and
  space characters and the no-break space lie in that range; \<open>toLowerCase\<close> maps the
  capital letters, which there are A to Z and the accented capitals from \<open>0xC0\<close> to
  \<open>0xDE\<close> without the multiplication sign \<open>0xD7\<close>.
\<close>

definition isSpace :: "char \<Rightarrow> bool" where
  "isSpace c =
     (c \<in> set [CHR '' '', CHR 0x09, CHR 0x0A, CHR 0x0B, CHR 0x0C, CHR 0x0D, CHR 0xA0])"

definition trim :: "string \<Rightarrow> string" where
  "trim s = rev (dropWhile isSpace (rev (dropWhile isSpace s)))"

definition capitals :: string where
  "capitals =
     ''ABCDEFGHIJKLMNOPQRSTUVWXYZ'' @
     [CHR 0xC0, CHR 0xC1, CHR 0xC2, CHR 0xC3, CHR 0xC4, CHR 0xC5, CHR 0xC6, CHR 0xC7,
      CHR 0xC8, CHR 0xC9, CHR 0xCA, CHR 0xCB, CHR 0xCC, CHR 0xCD, CHR 0xCE, CHR 0xCF,
      CHR 0xD0, CHR 0xD1, CHR 0xD2, CHR 0xD3, CHR 0xD4, CHR 0xD5, CHR 0xD6,
      CHR 0xD8, CHR 0xD9, CHR 0xDA, CHR 0xDB, CHR 0xDC, CHR 0xDD, CHR 0xDE]"

definition smalls :: string where
  "smalls =
     ''abcdefghijklmnopqrstuvwxyz'' @
     [CHR 0xE0, CHR 0xE1, CHR 0xE2, CHR 0xE3, CHR 0xE4, CHR 0xE5, CHR 0xE6, CHR 0xE7,
      CHR 0xE8, CHR 0xE9, CHR 0xEA, CHR 0xEB, CHR 0xEC, CHR 0xED, CHR 0xEE, CHR 0xEF,
      CHR 0xF0, CHR 0xF1, CHR 0xF2, CHR 0xF3, CHR 0xF4, CHR 0xF5, CHR 0xF6,
      CHR 0xF8, CHR 0xF9, CHR 0xFA, CHR 0xFB, CHR 0xFC, CHR 0xFD, CHR 0xFE]"

definition toLowerChar :: "char \<Rightarrow> char" where
  "toLowerChar c = (case map_of (zip capitals smalls) c of None \<Rightarrow> c | Some l \<Rightarrow> l)"

definition toLowerCase :: "string \<Rightarrow> string" where
  "toLowerCase s = map toLowerChar s"

text \<open>
  \<open>toDouble\<close> rounds a whole number to the nearest double, a tie going to the even
  significand of 53 bits, and to infinity from \<open>2 ^ 1024\<close> on.
\<close>

fun bitLength :: "nat \<Rightarrow> nat" where
  "bitLength n = (if n = 0 then 0 else Suc (bitLength (n div 2)))"

declare bitLength.simps [simp del]

definition toDouble :: "bool \<Rightarrow> nat \<Rightarrow> double" where
  "toDouble neg n =
     (if n < 2 ^ 53 then Finite neg n
      else
        let e = bitLength n - 53;
            q = n div 2 ^ e;
            r = n mod 2 ^ e;
            h = 2 ^ (e - 1);
            m = (if h < r \<or> (r = h \<and> odd q) then q + 1 else q) * 2 ^ e
        in if m < 2 ^ 1024 then Finite neg m else Infinity neg)"

definition digitOf :: "char \<Rightarrow> nat" where
  "digitOf c = of_char c - 48"

definition isDigit :: "char \<Rightarrow> bool" where
  "isDigit c = (c \<in> set ''0123456789'')"

text \<open>
  \<open>parseInt(s, 10)\<close>: leading white space, a sign, then digits, read as a whole
  number and rounded to a double; \<open>None\<close> is \<open>NaN\<close>.
\<close>

definition parseInt :: "string \<Rightarrow> number" where
  "parseInt s =
     (let t = dropWhile isSpace s;
          neg = (t \<noteq> [] \<and> hd t = CHR ''-'');
          r = (if t \<noteq> [] \<and> (hd t = CHR ''-'' \<or> hd t = CHR ''+'') then tl t else t);
          ds = takeWhile isDigit r
      in if ds = [] then None
         else Some (toDouble neg (foldl (\<lambda>acc c. 10 * acc + digitOf c) 0 ds)))"

text \<open>
  A query parameter is absent or a string; the conditions of the handlers test it for
  truthiness, which a string passes when it is not empty.
\<close>

definition str :: "string option \<Rightarrow> string" where
  "str x = (case x of None \<Rightarrow> [] | Some s \<Rightarrow> s)"

definition given :: "string option \<Rightarrow> bool" where
  "given x = (str x \<noteq> [])"

text \<open>\<open>!xs\<close> for an array \<open>xs\<close>: every array is truthy, the empty one too.\<close>

definition notArray :: "'a list \<Rightarrow> bool" where
  "notArray xs = False"

text \<open>An identity that is absent reaches the store as \<open>null\<close>.\<close>

definition idVal :: "string option \<Rightarrow> val" where
  "idVal x = (case x of None \<Rightarrow> Null | Some i \<Rightarrow> Id i)"

subsection \<open>Store calls\<close>

definition Video_aggregate :: "env \<Rightarrow> stage list \<Rightarrow> world \<Rightarrow> (mongoError + doc list) \<times> world" where
  "Video_aggregate E pipeline w =
     (runPipeline (mongoOf E (db w)) pipeline (map videoDoc (videos (db w))),
      logCall (Aggregate ''videos'') w)"

definition User_aggregate :: "env \<Rightarrow> stage list \<Rightarrow> world \<Rightarrow> (mongoError + doc list) \<times> world" where
  "User_aggregate E pipeline w =
     (runPipeline (mongoOf E (db w)) pipeline (map userDoc (users (db w))),
      logCall (Aggregate ''users'') w)"

definition Video_aggregatePaginate ::
  "env \<Rightarrow> stage list \<Rightarrow> number \<Rightarrow> number \<Rightarrow> world \<Rightarrow> (mongoError + doc list) \<times> world" where
  "Video_aggregatePaginate E pipeline page limit w =
     (case runPipeline (mongoOf E (db w)) pipeline (map videoDoc (videos (db w))) of
        Inl err \<Rightarrow> Inl err
      | Inr ds \<Rightarrow> Inr (aggregatePaginate E page limit ds),
      logCall (AggregatePaginate ''videos'') w)"

text \<open>
  \<open>findById\<close> casts a string argument to an object identifier first and throws a cast
  error when that fails, before anything is asked of the store. The viewer's identity (\<open>req.user?._id\<close>) is an object
  identifier already; when it is absent \<open>findById\<close> finds nothing.
\<close>

definition Video_findById :: "env \<Rightarrow> string \<Rightarrow> world \<Rightarrow> (error + video option) \<times> world" where
  "Video_findById E i w =
     (if isValidObjectId E i
      then (Inr (find (\<lambda>v. v_id v = castId E i) (videos (db w))),
            logCall (FindById ''videos'' i) w)
      else (Inl (CastError i), w))"

definition User_findById :: "string option \<Rightarrow> world \<Rightarrow> user option \<times> world" where
  "User_findById i w =
     (case i of
        None \<Rightarrow> None
      | Some j \<Rightarrow> find (\<lambda>u. u_id u = j) (users (db w)),
      logCall (FindById ''users'' (str i)) w)"

fun updateFirst :: "('a \<Rightarrow> bool) \<Rightarrow> ('a \<Rightarrow> 'a) \<Rightarrow> 'a list \<Rightarrow> 'a list" where
  "updateFirst P f [] = []"
| "updateFirst P f (x # xs) = (if P x then f x # xs else x # updateFirst P f xs)"

fun removeFirst :: "('a \<Rightarrow> bool) \<Rightarrow> 'a list \<Rightarrow> 'a list" where
  "removeFirst P [] = []"
| "removeFirst P (x # xs) = (if P x then xs else x # removeFirst P xs)"

text \<open>
  \<open>Video.findByIdAndUpdate(videoId, { $inc: { views: 1 } })\<close>, and likewise
  \<open>findByIdAndDelete\<close> and \<open>deleteMany\<close> below: each is given the identifier its
  string argument casts to.
\<close>

definition Video_incViews :: "string \<Rightarrow> world \<Rightarrow> world" where
  "Video_incViews i w =
     logCall (FindByIdAndUpdate ''videos'' i)
       (w\<lparr>db := (db w)\<lparr>videos :=
            updateFirst (\<lambda>v. v_id v = i) (\<lambda>v. v\<lparr>v_views := v_views v + 1\<rparr>) (videos (db w))\<rparr>\<rparr>)"

text \<open>\<open>user.save()\<close> writes the document back under its identifier.\<close>

definition User_save :: "user \<Rightarrow> world \<Rightarrow> world" where
  "User_save u w =
     logCall (Save ''users'' (u_id u))
       (w\<lparr>db := (db w)\<lparr>users :=
            updateFirst (\<lambda>x. u_id x = u_id u) (\<lambda>x. u) (users (db w))\<rparr>\<rparr>)"

definition Video_findByIdAndDelete :: "string \<Rightarrow> world \<Rightarrow> video option \<times> world" where
  "Video_findByIdAndDelete i w =
     (find (\<lambda>v. v_id v = i) (videos (db w)),
      logCall (FindByIdAndDelete ''videos'' i)
        (w\<lparr>db := (db w)\<lparr>videos := removeFirst (\<lambda>v. v_id v = i) (videos (db w))\<rparr>\<rparr>))"

definition Like_deleteMany :: "string \<Rightarrow> world \<Rightarrow> world" where
  "Like_deleteMany i w =
     logCall (DeleteMany ''likes'' i)
       (w\<lparr>db := (db w)\<lparr>likes := filter (\<lambda>l. l_video l \<noteq> i) (likes (db w))\<rparr>\<rparr>)"

definition Comment_deleteMany :: "string \<Rightarrow> world \<Rightarrow> world" where
  "Comment_deleteMany i w =
     logCall (DeleteMany ''comments'' i)
       (w\<lparr>db := (db w)\<lparr>comments := filter (\<lambda>c. c_video c \<noteq> i) (comments (db w))\<rparr>\<rparr>)"

text \<open>
  \<open>deleteFromCloudinary\<close> returns at once on an empty identifier, and otherwise asks the
  provider to destroy the object; whatever happens after the request is caught inside.
\<close>

definition deleteFromCloudinary :: "string \<Rightarrow> world \<Rightarrow> world" where
  "deleteFromCloudinary f w = (if f = [] then w else logCall (Destroy f) w)"


section \<open>The handlers of the video controller\<close>

subsection \<open>getAllVideos\<close>

record listQuery =
  page :: "string option"
  limit :: "string option"
  query :: "string option"
  sortBy :: "string option"
  sortType :: "string option"
  userId :: "string option"

text \<open>
  \<open>page = 1\<close> and \<open>limit = 10\<close> are the defaults of the destructuring;
  \<open>parseInt\<close> of such a default is the number itself.
\<close>

definition parseParam :: "string option \<Rightarrow> nat \<Rightarrow> number" where
  "parseParam x dflt = (case x of None \<Rightarrow> Some (Finite False dflt) | Some s \<Rightarrow> parseInt s)"

definition ownerDetailsLookup :: "stage list" where
  "ownerDetailsLookup =
     [Lookup ''users'' ''owner'' ''_id'' ''ownerDetails''
        [Project [[''username''], [''avatar'', ''url'']]],
      Unwind ''ownerDetails'']"

definition getAllVideos :: "env \<Rightarrow> listQuery \<Rightarrow> world \<Rightarrow> outcome \<times> world" where
  "getAllVideos E q w =
     (let pipeline0 = [];
          pipeline1 = (if given (query q)
                       then pipeline0 @ [Search ''search-videos'' (str (query q))
                                           [''title'', ''description'']]
                       else pipeline0)
      in if given (userId q) \<and> \<not> isValidObjectId E (str (userId q))
         then (Inl (ApiError 400 ''Invalid userId''), w)
         else
           let pipeline2 = (if given (userId q)
                            then pipeline1 @ [Match [(''owner'', Id (castId E (str (userId q))))]]
                            else pipeline1);
               pipeline3 = pipeline2 @ [Match [(''isPublished'', B True)]];
               pipeline4 = (if given (sortBy q) \<and> given (sortType q)
                            then pipeline3 @ [Sort (str (sortBy q))
                                                (if str (sortType q) = ''asc'' then 1 else - 1)]
                            else pipeline3 @ [Sort ''createdAt'' (- 1)]);
               pipeline5 = pipeline4 @ ownerDetailsLookup
           in case Video_aggregatePaginate E pipeline5
                     (parseParam (page q) 1) (parseParam (limit q) 10) w of
                (Inl err, w') \<Rightarrow> (Inl (MongoError err), w')
              | (Inr vs, w') \<Rightarrow>
                  (Inr (200, ApiResponse 200 (PPage vs) ''Videos fetched successfully''), w'))"

subsection \<open>getVideoByIdForGuest and getVideoById\<close>

text \<open>The pipeline nested in the owner lookup is named, to be reasoned about on its own.\<close>

definition guestOwnerPipeline :: "stage list" where
  "guestOwnerPipeline =
     [Lookup ''subscriptions'' ''_id'' ''channel'' ''subscribers'' [],
      AddFields [(''subscribersCount'', Size (Field [''subscribers''])),
                 (''isSubscribed'', Lit (B False))],
      Project [[''username''], [''avatar'', ''url''], [''subscribersCount'']]]"

definition guestPipeline :: "env \<Rightarrow> string \<Rightarrow> stage list" where
  "guestPipeline E videoId =
     [Match [(''_id'', Id (castId E videoId)), (''isPublished'', B True)],
      Lookup ''likes'' ''_id'' ''video'' ''likes'' [],
      Lookup ''users'' ''owner'' ''_id'' ''owner'' guestOwnerPipeline,
      AddFields [(''likesCount'', Size (Field [''likes''])),
                 (''owner'', First (Field [''owner''])),
                 (''isLiked'', Lit (B False))],
      Project [[''video'', ''url''], [''title''], [''description''], [''views''],
               [''createdAt''], [''duration''], [''comments''], [''owner''],
               [''likesCount''], [''isLiked''], [''isSubscribed'']]]"

text \<open>The payload \<open>video[0]\<close>: the first element, or \<open>undefined\<close> on an empty array.\<close>

definition firstDoc :: "doc list \<Rightarrow> payload" where
  "firstDoc ds = (case ds of [] \<Rightarrow> Undefined | d # _ \<Rightarrow> PDoc d)"

definition getVideoByIdForGuest :: "env \<Rightarrow> string \<Rightarrow> world \<Rightarrow> outcome \<times> world" where
  "getVideoByIdForGuest E videoId w =
     (if trim videoId = [] then (Inl (ApiError 400 ''Video Id is missing''), w)
      else if \<not> isValidObjectId E videoId then (Inl (ApiError 400 ''Invalid VideoID''), w)
      else
        case Video_aggregate E (guestPipeline E videoId) w of
          (Inl err, w') \<Rightarrow> (Inl (MongoError err), w')
        | (Inr video, w') \<Rightarrow>
            if notArray video then (Inl (ApiError 404 ''Video not found''), w')
            else (Inr (200, ApiResponse 200 (firstDoc video) ''Video found''), w'))"

definition detailOwnerPipeline :: "bool \<Rightarrow> string option \<Rightarrow> stage list" where
  "detailOwnerPipeline isGuest viewer =
     [Lookup ''subscriptions'' ''_id'' ''channel'' ''subscribers'' [],
      AddFields [(''subscribersCount'', Size (Field [''subscribers''])),
                 (''isSubscribed'',
                    Cond (Lit (B isGuest)) (Lit (B False))
                      (Cond (In (Lit (idVal viewer)) (Field [''subscribers'', ''subscriber'']))
                         (Lit (B True)) (Lit (B False))))],
      Project [[''username''], [''fullName''], [''avatar'', ''url''],
               [''subscribersCount''], [''isSubscribed'']]]"

definition detailPipeline :: "env \<Rightarrow> bool \<Rightarrow> string option \<Rightarrow> string \<Rightarrow> stage list" where
  "detailPipeline E isGuest viewer videoId =
     [Match [(''_id'', Id (castId E videoId))],
      Lookup ''likes'' ''_id'' ''video'' ''likes'' [],
      Lookup ''users'' ''owner'' ''_id'' ''owner'' (detailOwnerPipeline isGuest viewer),
      AddFields [(''likesCount'', Size (Field [''likes''])),
                 (''owner'', First (Field [''owner''])),
                 (''isLiked'',
                    Cond (Lit (B isGuest)) (Lit (B False))
                      (Cond (In (Lit (idVal viewer)) (Field [''likes'', ''likedBy'']))
                         (Lit (B True)) (Lit (B False))))],
      Project [[''video'', ''url''], [''title''], [''description''], [''views''],
               [''createdAt''], [''duration''], [''comments''], [''owner''],
               [''likesCount''], [''isLiked''], [''isSubscribed''], [''subscribersCount'']]]"

text \<open>
  \<open>guest\<close> is the query parameter of that name and \<open>viewer\<close> is \<open>req.user?._id\<close>.
\<close>

definition getVideoById ::
  "env \<Rightarrow> string option \<Rightarrow> string option \<Rightarrow> string \<Rightarrow> world \<Rightarrow> outcome \<times> world" where
  "getVideoById E guest viewer videoId w =
     (let isGuest = (guest = Some ''true'')
      in if trim videoId = [] then (Inl (ApiError 400 ''Video Id is missing''), w)
         else if \<not> isValidObjectId E videoId then (Inl (ApiError 400 ''Invalid VideoID''), w)
         else
           case Video_aggregate E (detailPipeline E isGuest viewer videoId) w of
             (Inl err, w') \<Rightarrow> (Inl (MongoError err), w')
           | (Inr video, w') \<Rightarrow>
               if length video = 0 then (Inl (ApiError 404 ''Video not found''), w')
               else (Inr (200, ApiResponse 200 (firstDoc video) ''Video found''), w'))"

subsection \<open>deleteVideo\<close>

text \<open>
  Between the two awaits of the handler other requests may write to the store;
  \<open>others\<close> is what they do to it (\<open>id\<close> when the handler runs alone). The array
  given to \<open>Promise.all\<close> is built from left to right: the two \<open>deleteMany\<close> make
  queries, which are sent only when \<open>Promise.all\<close> subscribes to them, and the two
  calls of \<open>deleteFromCloudinary\<close> run up to their \<open>await\<close>, which asks the provider
  at once. So both requests to the provider are issued before the two queries.
\<close>

definition deleteVideo ::
  "env \<Rightarrow> (store \<Rightarrow> store) \<Rightarrow> string \<Rightarrow> world \<Rightarrow> outcome \<times> world" where
  "deleteVideo E others videoId w =
     (case Video_findById E videoId w of
        (Inl err, w1) \<Rightarrow> (Inl err, w1)
      | (Inr None, w1) \<Rightarrow> (Inl (ApiError 404 ''Video not found''), w1)
      | (Inr (Some currentVideo), w1) \<Rightarrow>
          (case Video_findByIdAndDelete (castId E videoId) (w1\<lparr>db := others (db w1)\<rparr>) of
             (None, w2) \<Rightarrow> (Inl (ApiError 500 ''Video deletion failed''), w2)
           | (Some deleted, w2) \<Rightarrow>
               let w3 = deleteFromCloudinary (fileId (v_video currentVideo)) w2;
                   w4 = deleteFromCloudinary (fileId (v_thumbnail currentVideo)) w3;
                   w5 = Like_deleteMany (castId E videoId) w4;
                   w6 = Comment_deleteMany (castId E videoId) w5
               in (Inr (200, ApiResponse 200 PNull ''Video deleted successfully''), w6)))"

subsection \<open>updateVideoViews\<close>

text \<open>
  \<open>now\<close> is what \<open>new Date()\<close> gives during the call and \<open>viewer\<close> is
  \<open>req.user?._id\<close>, the handler's \<open>userId\<close>. The scan of the history compares
  \<open>entry.video.toString()\<close> with the string of the request; the pushed entry holds the
  identifier that string casts to. The reply carries the video as it was read before the
  increment, and the user as saved.
\<close>

definition updateVideoViews ::
  "env \<Rightarrow> int \<Rightarrow> string option \<Rightarrow> string \<Rightarrow> world \<Rightarrow> outcome \<times> world" where
  "updateVideoViews E now viewer videoId w =
     (if \<not> isValidObjectId E videoId then (Inl (ApiError 400 ''Invalid videoId''), w)
      else
        case Video_findById E videoId w of
          (Inl err, w1) \<Rightarrow> (Inl err, w1)
        | (Inr None, w1) \<Rightarrow> (Inl (ApiError 404 ''Video not found''), w1)
        | (Inr (Some video), w1) \<Rightarrow>
            (case User_findById viewer w1 of
               (None, w2) \<Rightarrow> (Inl (ApiError 404 ''User not found''), w2)
             | (Some user, w2) \<Rightarrow>
                 (case find (\<lambda>entry. h_video entry = videoId) (u_watchHistory user) of
                    None \<Rightarrow>
                      let w3 = Video_incViews (castId E videoId) w2;
                          user' = user\<lparr>u_watchHistory := u_watchHistory user @
                                    [\<lparr>h_video = castId E videoId, h_watchedAt = now\<rparr>]\<rparr>;
                          w4 = User_save user' w3
                      in (Inr (200, ApiResponse 200 (PVideoUser video user')
                                 ''Video views updated successfully''), w4)
                  | Some watchHistoryEntry \<Rightarrow>
                      let user' = user\<lparr>u_watchHistory :=
                                    updateFirst (\<lambda>entry. h_video entry = videoId)
                                      (\<lambda>entry. entry\<lparr>h_watchedAt := now\<rparr>)
                                      (u_watchHistory user)\<rparr>;
                          w3 = User_save user' w2
                      in (Inr (200, ApiResponse 200 (PVideoUser video user')
                                 ''Video views updated successfully''), w3))))"

section \<open>The channel profile of the user controller\<close>

definition channelPipeline :: "string option \<Rightarrow> string \<Rightarrow> stage list" where
  "channelPipeline viewer username =
     [Match [(''username'', S (toLowerCase username))],
      Lookup ''subcription'' ''_id'' ''channel'' ''subcription'' [],
      Lookup ''subcription'' ''_id'' ''subscriber'' ''subscribedTo'' [],
      AddFields [(''subscribersCount'', Size (Field [''subscribers''])),
                 (''channelSubscribedToCount'', Size (Lit (S ''subscribedTo''))),
                 (''isSubscribed'',
                    Cond (In (Lit (idVal viewer)) (Lit (S ''subscribers.subscriber'')))
                      (Lit (B True)) (Lit (B False)))],
      Project [[''fullName''], [''username''], [''subscribersCount''],
               [''channelSubscribedToCount''], [''isSubscribed''], [''avatar''],
               [''coverImage''], [''email'']]]"

definition getUserChannelProfile ::
  "env \<Rightarrow> string option \<Rightarrow> string \<Rightarrow> world \<Rightarrow> outcome \<times> world" where
  "getUserChannelProfile E viewer username w =
     (if trim username = [] then (Inl (ApiError 400 ''username is missing''), w)
      else
        case User_aggregate E (channelPipeline viewer username) w of
          (Inl err, w') \<Rightarrow> (Inl (MongoError err), w')
        | (Inr channel, w') \<Rightarrow>
            if length channel = 0 then (Inl (ApiError 404 ''channel does not exists''), w')
            else (Inr (200, ApiResponse 200 (firstDoc channel)
                         ''User channel fetched succesfully''), w'))"


section \<open>Observations, closed forms and sample data\<close>

subsection \<open>What a caller can observe of the store\<close>

definition viewsOf :: "world \<Rightarrow> string \<Rightarrow> int option" where
  "viewsOf w i = map_option v_views (find (\<lambda>v. v_id v = i) (videos (db w)))"

definition historyOf :: "world \<Rightarrow> string \<Rightarrow> historyEntry list option" where
  "historyOf w i = map_option u_watchHistory (find (\<lambda>u. u_id u = i) (users (db w)))"

definition likesOf :: "store \<Rightarrow> string \<Rightarrow> like list" where
  "likesOf s i = filter (\<lambda>l. l_video l = i) (likes s)"

definition subscribersOf :: "store \<Rightarrow> string \<Rightarrow> subscription list" where
  "subscribersOf s c = filter (\<lambda>x. s_channel x = c) (subscriptions s)"

definition viewerIn :: "string option \<Rightarrow> string list \<Rightarrow> bool" where
  "viewerIn viewer ids = (case viewer of None \<Rightarrow> False | Some i \<Rightarrow> i \<in> set ids)"

subsection \<open>Stages that work document by document\<close>

text \<open>
  Every stage but \<open>$sort\<close> maps each input document to its output documents on its
  own, so a pipeline without \<open>$sort\<close> can be run on one document at a time.
\<close>

definition distributes :: "('a list \<Rightarrow> 'e + 'a list) \<Rightarrow> bool" where
  "distributes F \<longleftrightarrow>
     F [] = Inr [] \<and>
     (\<forall>xs ys r. F (xs @ ys) = Inr r \<longleftrightarrow> (\<exists>a b. F xs = Inr a \<and> F ys = Inr b \<and> r = a @ b))"

fun isSort :: "stage \<Rightarrow> bool" where
  "isSort (Sort k dir) = True"
| "isSort st = False"

subsection \<open>The records the detail pipelines yield\<close>

text \<open>
  The document each detail pipeline yields for one video, written out field by field.
  The lemmas of the next section prove that the pipelines compute exactly these.
\<close>

definition ownerDetail :: "store \<Rightarrow> bool \<Rightarrow> string option \<Rightarrow> user \<Rightarrow> doc" where
  "ownerDetail s isGuest viewer u =
     [(''_id'', Id (u_id u)),
      (''username'', S (u_username u)),
      (''fullName'', S (u_fullName u)),
      (''avatar'', Doc [(''url'', S (url (u_avatar u)))]),
      (''subscribersCount'', N (int (length (subscribersOf s (u_id u))))),
      (''isSubscribed'',
         B (\<not> isGuest \<and> viewerIn viewer (map s_subscriber (subscribersOf s (u_id u)))))]"

definition detailRecord :: "store \<Rightarrow> bool \<Rightarrow> string option \<Rightarrow> video \<Rightarrow> doc" where
  "detailRecord s isGuest viewer v =
     [(''_id'', Id (v_id v)),
      (''video'', Doc [(''url'', S (url (v_video v)))]),
      (''title'', S (v_title v)),
      (''description'', S (v_description v)),
      (''duration'', N (v_duration v)),
      (''views'', N (v_views v))] @
     (case filter (\<lambda>u. u_id u = v_owner v) (users s) of
        [] \<Rightarrow> []
      | u # _ \<Rightarrow> [(''owner'', Doc (ownerDetail s isGuest viewer u))]) @
     [(''createdAt'', N (v_createdAt v)),
      (''likesCount'', N (int (length (likesOf s (v_id v))))),
      (''isLiked'', B (\<not> isGuest \<and> viewerIn viewer (map l_likedBy (likesOf s (v_id v)))))]"

definition guestOwner :: "store \<Rightarrow> user \<Rightarrow> doc" where
  "guestOwner s u =
     [(''_id'', Id (u_id u)),
      (''username'', S (u_username u)),
      (''avatar'', Doc [(''url'', S (url (u_avatar u)))]),
      (''subscribersCount'', N (int (length (subscribersOf s (u_id u)))))]"

definition guestRecord :: "store \<Rightarrow> video \<Rightarrow> doc" where
  "guestRecord s v =
     [(''_id'', Id (v_id v)),
      (''video'', Doc [(''url'', S (url (v_video v)))]),
      (''title'', S (v_title v)),
      (''description'', S (v_description v)),
      (''duration'', N (v_duration v)),
      (''views'', N (v_views v))] @
     (case filter (\<lambda>u. u_id u = v_owner v) (users s) of
        [] \<Rightarrow> []
      | u # _ \<Rightarrow> [(''owner'', Doc (guestOwner s u))]) @
     [(''createdAt'', N (v_createdAt v)),
      (''likesCount'', N (int (length (likesOf s (v_id v))))),
      (''isLiked'', B False)]"

subsection \<open>The listing as the specification words it\<close>

text \<open>
  The six steps of the feed, each a function on the documents, in the words of the
  specification: full-text search when a query is given, the owner filter when an owner
  is given, the published-only filter, the sort, the owner join with its projection of
  \<open>username\<close> and \<open>avatar.url\<close>, and the page.
\<close>

definition searchStep :: "env \<Rightarrow> listQuery \<Rightarrow> doc list \<Rightarrow> doc list" where
  "searchStep E q ds =
     (if given (query q)
      then filter (searchIndex E ''search-videos'' (str (query q)) [''title'', ''description'']) ds
      else ds)"

definition ownerStep :: "env \<Rightarrow> listQuery \<Rightarrow> doc list \<Rightarrow> doc list" where
  "ownerStep E q ds =
     (if given (userId q)
      then filter (\<lambda>d. field ''owner'' d = Id (castId E (str (userId q)))) ds
      else ds)"

definition publishedStep :: "doc list \<Rightarrow> doc list" where
  "publishedStep ds = filter (\<lambda>d. field ''isPublished'' d = B True) ds"

definition sortStep :: "env \<Rightarrow> listQuery \<Rightarrow> doc list \<Rightarrow> doc list" where
  "sortStep E q ds =
     (if given (sortBy q) \<and> given (sortType q)
      then sortDocs (valueLe E) (str (sortBy q)) (if str (sortType q) = ''asc'' then 1 else - 1) ds
      else sortDocs (valueLe E) ''createdAt'' (- 1) ds)"

definition ownerSummary :: "user \<Rightarrow> doc" where
  "ownerSummary u = projectDoc [[''username''], [''avatar'', ''url'']] (userDoc u)"

definition joinStep :: "store \<Rightarrow> doc list \<Rightarrow> doc list" where
  "joinStep s ds =
     concat (map (\<lambda>d. map (\<lambda>u. setField ''ownerDetails'' (Doc (ownerSummary u)) d)
                          (filter (\<lambda>u. Id (u_id u) = field ''owner'' d) (users s))) ds)"

definition pageStep :: "env \<Rightarrow> listQuery \<Rightarrow> doc list \<Rightarrow> doc list" where
  "pageStep E q ds = aggregatePaginate E (parseParam (page q) 1) (parseParam (limit q) 10) ds"

definition feed :: "env \<Rightarrow> listQuery \<Rightarrow> store \<Rightarrow> doc list" where
  "feed E q s =
     pageStep E q (joinStep s (sortStep E q (publishedStep (ownerStep E q (searchStep E q
       (map videoDoc (videos s)))))))"


subsection \<open>A sample environment and store\<close>

text \<open>
  A concrete environment and a small store, on which the theorems below are
  instantiated: Alice owns a published and an unpublished video and has watched the
  first; Bob follows Alice, likes her published video and has commented on it. The
  sample cast is the one of 24 hexadecimal digits: the digits are read in either case
  and printed in lower case. The sample pagination takes for the page the magnitude of
  the number it is given, and 1 when that is zero, infinite or not a number; for the
  limit the number when it is finite and positive, and 10 otherwise. This is what the
  plugin does with a number below \<open>10 ^ 21\<close>.
\<close>

definition isHexDigit :: "char \<Rightarrow> bool" where
  "isHexDigit c = (c \<in> set ''0123456789abcdefABCDEF'')"

definition samplePaginate :: "number \<Rightarrow> number \<Rightarrow> doc list \<Rightarrow> doc list" where
  "samplePaginate p l ds =
     (let pg = (case p of Some (Finite neg n) \<Rightarrow> if n = 0 then 1 else n | _ \<Rightarrow> 1);
          lm = (case l of Some (Finite False n) \<Rightarrow> if n = 0 then 10 else n | _ \<Rightarrow> 10)
      in take lm (drop ((pg - 1) * lm) ds))"

definition sampleEnv :: env where
  "sampleEnv =
     \<lparr>isValidObjectId = (\<lambda>s. length s = 24 \<and> list_all isHexDigit s),
      castId = toLowerCase,
      valueLe = (\<lambda>a b. case (a, b) of (N x, N y) \<Rightarrow> x \<le> y | _ \<Rightarrow> True),
      searchIndex = (\<lambda>idx qs paths d. list_ex (\<lambda>p. field p d = S qs) paths),
      aggregatePaginate = samplePaginate\<rparr>"

definition aliceId :: string where "aliceId = ''64a000000000000000000001''"
definition bobId :: string where "bobId = ''64a000000000000000000002''"
definition pubId :: string where "pubId = ''64b000000000000000000001''"
definition draftId :: string where "draftId = ''64b000000000000000000002''"
definition unknownId :: string where "unknownId = ''64b000000000000000000003''"

text \<open>The identifier of the published video, spelled with an upper-case digit.\<close>

definition upperPubId :: string where "upperPubId = ''64B000000000000000000001''"

definition pubVideo :: video where
  "pubVideo =
     \<lparr>v_id = pubId, v_video = \<lparr>fileId = ''vid-1'', url = ''https://cdn/vid-1''\<rparr>,
      v_thumbnail = \<lparr>fileId = ''thumb-1'', url = ''https://cdn/thumb-1''\<rparr>,
      v_title = ''Intro'', v_description = ''First video'', v_duration = 60, v_views = 7,
      v_isPublished = True, v_owner = aliceId, v_createdAt = 1000\<rparr>"

definition draftVideo :: video where
  "draftVideo =
     \<lparr>v_id = draftId, v_video = \<lparr>fileId = ''vid-2'', url = ''https://cdn/vid-2''\<rparr>,
      v_thumbnail = \<lparr>fileId = ''thumb-2'', url = ''https://cdn/thumb-2''\<rparr>,
      v_title = ''Draft'', v_description = ''Not yet out'', v_duration = 30, v_views = 0,
      v_isPublished = False, v_owner = aliceId, v_createdAt = 2000\<rparr>"

definition alice :: user where
  "alice =
     \<lparr>u_id = aliceId, u_username = ''alice'', u_email = ''alice@example.org'',
      u_fullName = ''Alice'', u_avatar = \<lparr>fileId = ''av-1'', url = ''https://cdn/av-1''\<rparr>,
      u_coverImage = \<lparr>fileId = ''cv-1'', url = ''https://cdn/cv-1''\<rparr>,
      u_watchHistory = [\<lparr>h_video = pubId, h_watchedAt = 100\<rparr>]\<rparr>"

definition bob :: user where
  "bob =
     \<lparr>u_id = bobId, u_username = ''bob'', u_email = ''bob@example.org'',
      u_fullName = ''Bob'', u_avatar = \<lparr>fileId = ''av-2'', url = ''https://cdn/av-2''\<rparr>,
      u_coverImage = \<lparr>fileId = ''cv-2'', url = ''https://cdn/cv-2''\<rparr>,
      u_watchHistory = []\<rparr>"

definition sampleStore :: store where
  "sampleStore =
     \<lparr>videos = [pubVideo, draftVideo], users = [alice, bob],
      likes = [\<lparr>l_video = pubId, l_likedBy = bobId\<rparr>, \<lparr>l_video = pubId, l_likedBy = aliceId\<rparr>],
      subscriptions = [\<lparr>s_subscriber = bobId, s_channel = aliceId\<rparr>],
      comments = [\<lparr>c_video = pubId, c_owner = bobId, c_content = ''nice''\<rparr>]\<rparr>"

definition sampleWorld :: world where
  "sampleWorld = \<lparr>db = sampleStore, calls = []\<rparr>"

definition allQuery :: listQuery where
  "allQuery =
     \<lparr>page = Some ''1'', limit = Some ''10'', query = Some ''Intro'', sortBy = Some ''views'',
      sortType = Some ''asc'', userId = Some aliceId\<rparr>"

definition badOwnerQuery :: listQuery where
  "badOwnerQuery =
     \<lparr>page = None, limit = None, query = None, sortBy = None, sortType = None,
      userId = Some ''not-an-id''\<rparr>"

definition badPageQuery :: listQuery where
  "badPageQuery =
     \<lparr>page = Some ''abc'', limit = Some ''ten'', query = None, sortBy = None, sortType = None,
      userId = None\<rparr>"

text \<open>Another request that removes every video between the two awaits of a delete.\<close>

definition dropVideos :: "store \<Rightarrow> store" where
  "dropVideos s = s\<lparr>videos := []\<rparr>"

section \<open>Lemmas\<close>

subsection \<open>Lists and documents\<close>

lemma field_Nil [simp]: "field k [] = Missing"
  by (simp add: field_def)

lemma field_Cons [simp]: "field k ((k', v) # d) = (if k' = k then v else field k d)"
  by (simp add: field_def)

lemma field_setField: "field k' (setField k v d) = (if k' = k then v else field k' d)"
  by (simp add: field_def setField_def update_conv' delete_conv')

lemma setField_setField: "y \<noteq> Missing \<Longrightarrow> setField k x (setField k y d) = setField k x d"
  by (simp add: setField_def delete_update_same)

lemma unwindDoc_setField:
  "unwindDoc k (setField k (Arr xs) d) = map (\<lambda>x. setField k x d) xs"
  by (simp add: unwindDoc_def field_setField setField_setField)

lemma find_Some_holds: "find P xs = Some x \<Longrightarrow> P x"
  by (induction xs) (auto split: if_splits)

lemma find_updateFirst:
  "find P xs = Some x \<Longrightarrow> P (f x) \<Longrightarrow> find P (updateFirst P f xs) = Some (f x)"
  by (induction xs) (auto split: if_splits)

lemma updateFirst_split:
  "find P xs = Some x \<Longrightarrow>
   \<exists>pre post. xs = pre @ x # post \<and> (\<forall>y \<in> set pre. \<not> P y) \<and>
              updateFirst P f xs = pre @ f x # post"
proof (induction xs)
  case Nil
  then show ?case by simp
next
  case (Cons a xs)
  show ?case
  proof (cases "P a")
    case True
    with Cons.prems have "a = x" by simp
    with True show ?thesis by (intro exI[of _ "[]"] exI[of _ xs]) simp
  next
    case False
    with Cons.prems have "find P xs = Some x" by simp
    from Cons.IH[OF this] obtain pre post where
      "xs = pre @ x # post" "\<forall>y \<in> set pre. \<not> P y" "updateFirst P f xs = pre @ f x # post"
      by blast
    with False show ?thesis
      by (intro exI[of _ "a # pre"] exI[of _ post]) simp
  qed
qed

lemma updateFirst_append_None:
  "find P xs = None \<Longrightarrow> updateFirst P f (xs @ ys) = xs @ updateFirst P f ys"
  by (induction xs) (auto split: if_splits)

lemma find_append_None: "find P xs = None \<Longrightarrow> find P (xs @ ys) = find P ys"
  by (induction xs) (auto split: if_splits)

lemma filter_find_None: "find P xs = None \<Longrightarrow> filter P xs = []"
  by (induction xs) (auto split: if_splits)

lemma filter_find_Some: "find P xs = Some x \<Longrightarrow> \<exists>ys. filter P xs = x # ys"
  by (induction xs) (auto split: if_splits)

lemma removeFirst_none: "find P xs = None \<Longrightarrow> removeFirst P xs = xs"
  by (induction xs) (auto split: if_splits)

lemma find_removeFirst_distinct:
  "distinct (map f xs) \<Longrightarrow> filter (\<lambda>x. f x = i) (removeFirst (\<lambda>x. f x = i) xs) = []"
  by (induction xs) (auto simp: filter_empty_conv image_iff)

lemma set_insortDoc: "set (insortDoc le x ys) = insert x (set ys)"
  by (induction ys) auto

lemma set_sortDocs: "set (sortDocs le k dir ds) = set ds"
  by (induction ds) (simp_all add: sortDocs_def set_insortDoc)

lemma idVal_in_Ids:
  "idVal viewer \<in> (\<lambda>x. Id (f x)) ` A \<longleftrightarrow> (\<exists>i. viewer = Some i \<and> i \<in> f ` A)"
  by (cases viewer) (auto simp: idVal_def)

lemma viewerIn_iff: "viewerIn viewer ids \<longleftrightarrow> (\<exists>i. viewer = Some i \<and> i \<in> set ids)"
  by (cases viewer) (auto simp: viewerIn_def)

lemma samplePaginate_subset: "set (samplePaginate p l ds) \<subseteq> set ds"
  by (auto simp: samplePaginate_def Let_def dest!: in_set_takeD in_set_dropD)


subsection \<open>Running pipelines\<close>

lemma mapE_Inr: "mapE (\<lambda>x. Inr (f x)) xs = Inr (map f xs)"
  by (induction xs) auto

lemma mapE_append_eq:
  "mapE f (xs @ ys) =
     (case mapE f xs of
        Inl e \<Rightarrow> Inl e
      | Inr a \<Rightarrow> (case mapE f ys of Inl e \<Rightarrow> Inl e | Inr b \<Rightarrow> Inr (a @ b)))"
  by (induction xs) (auto split: sum.splits)

lemma mapE_append:
  "mapE f (xs @ ys) = Inr r \<longleftrightarrow> (\<exists>a b. mapE f xs = Inr a \<and> mapE f ys = Inr b \<and> r = a @ b)"
  by (auto simp: mapE_append_eq split: sum.splits)

lemma runStage_distributes: "\<not> isSort st \<Longrightarrow> distributes (runStage M st)"
  by (cases st) (auto simp: distributes_def mapE_append)

lemma chain_distributes: "list_all distributes fs \<Longrightarrow> distributes (chain fs)"
proof (induction fs)
  case Nil
  then show ?case by (auto simp: distributes_def)
next
  case (Cons f fs)
  then have f: "distributes f" and fs: "distributes (chain fs)" by simp_all
  have "chain (f # fs) [] = Inr []"
    using f fs by (simp add: distributes_def)
  moreover have "chain (f # fs) (xs @ ys) = Inr r \<longleftrightarrow>
      (\<exists>a b. chain (f # fs) xs = Inr a \<and> chain (f # fs) ys = Inr b \<and> r = a @ b)" for xs ys r
  proof
    assume "chain (f # fs) (xs @ ys) = Inr r"
    then obtain m where m: "f (xs @ ys) = Inr m" "chain fs m = Inr r"
      by (auto split: sum.splits)
    from m(1) f obtain a b where ab: "f xs = Inr a" "f ys = Inr b" "m = a @ b"
      unfolding distributes_def by blast
    from m(2) ab(3) fs obtain a' b' where "chain fs a = Inr a'" "chain fs b = Inr b'" "r = a' @ b'"
      unfolding distributes_def by blast
    with ab show "\<exists>a b. chain (f # fs) xs = Inr a \<and> chain (f # fs) ys = Inr b \<and> r = a @ b"
      by simp
  next
    assume "\<exists>a b. chain (f # fs) xs = Inr a \<and> chain (f # fs) ys = Inr b \<and> r = a @ b"
    then obtain a b where ab: "chain (f # fs) xs = Inr a" "chain (f # fs) ys = Inr b" "r = a @ b"
      by blast
    from ab(1) obtain ma where ma: "f xs = Inr ma" "chain fs ma = Inr a"
      by (auto split: sum.splits)
    from ab(2) obtain mb where mb: "f ys = Inr mb" "chain fs mb = Inr b"
      by (auto split: sum.splits)
    from ma(1) mb(1) f have "f (xs @ ys) = Inr (ma @ mb)"
      unfolding distributes_def by blast
    moreover from ma(2) mb(2) fs have "chain fs (ma @ mb) = Inr (a @ b)"
      unfolding distributes_def by blast
    ultimately show "chain (f # fs) (xs @ ys) = Inr r"
      using ab(3) by simp
  qed
  ultimately show ?case unfolding distributes_def by blast
qed

lemma distributes_lift:
  assumes "distributes F" and "\<And>x. x \<in> set xs \<Longrightarrow> F [h x] = Inr (g x)"
  shows "F (map h xs) = Inr (concat (map g xs))"
  using assms(2)
proof (induction xs)
  case Nil
  then show ?case using assms(1) by (simp add: distributes_def)
next
  case (Cons x xs)
  have "F [h x] = Inr (g x)" using Cons.prems by simp
  moreover have "F (map h xs) = Inr (concat (map g xs))" using Cons by simp
  ultimately have "F ([h x] @ map h xs) = Inr (g x @ concat (map g xs))"
    using assms(1) unfolding distributes_def by blast
  then show ?case by simp
qed

lemma runPipeline_lift:
  assumes "list_all (\<lambda>st. \<not> isSort st) stages"
    and "\<And>x. x \<in> set xs \<Longrightarrow> runPipeline M stages [h x] = Inr (g x)"
  shows "runPipeline M stages (map h xs) = Inr (concat (map g xs))"
proof -
  have "list_all distributes (map (runStage M) stages)"
    using assms(1) by (induction stages) (auto simp: runStage_distributes)
  then have "distributes (runPipeline M stages)"
    unfolding runPipeline_def[abs_def] by (rule chain_distributes)
  then show ?thesis using assms(2) by (rule distributes_lift)
qed

lemma runPipeline_Nil: "runPipeline M [] ds = Inr ds"
  by (simp add: runPipeline_def)

lemma runPipeline_Cons:
  "runPipeline M (st # sts) ds =
     (case runStage M st ds of Inl err \<Rightarrow> Inl err | Inr r \<Rightarrow> runPipeline M sts r)"
  by (simp add: runPipeline_def split: sum.splits)

lemma runStage_Lookup:
  "runStage M (Lookup from localField foreignField as sub) ds =
     mapE (\<lambda>d. case runPipeline M sub
                       (filter (\<lambda>f. field foreignField f = field localField d) (coll M from)) of
                 Inl err \<Rightarrow> Inl err
               | Inr rs \<Rightarrow> Inr (setField as (Arr (map Doc rs)) d)) ds"
  by (simp add: runPipeline_def)

lemma lookup_plain:
  "runStage M (Lookup from lf ff as []) ds =
     Inr (map (\<lambda>d. setField as
                  (Arr (map Doc (filter (\<lambda>f. field ff f = field lf d) (coll M from)))) d) ds)"
  by (simp add: mapE_Inr)

lemma project_all: "runPipeline M [Project ps] ds = Inr (map (projectDoc ps) ds)"
  by (simp add: runPipeline_def)

lemma matches_one: "matches [(k, v)] d \<longleftrightarrow> field k d = v"
  by (simp add: matches_def)

lemma coll_mongoOf: "coll (mongoOf E s) = collections s"
  by (simp add: mongoOf_def)

lemma mongoOf_simps:
  "bsonLe (mongoOf E s) = valueLe E" "textSearch (mongoOf E s) = searchIndex E"
  by (simp_all add: mongoOf_def)

lemmas pipeline_simps = runPipeline_Nil runPipeline_Cons runStage_Lookup coll_mongoOf
  collections_def

lemmas doc_simps = setField_def filter_map comp_def addFields_def projectDoc_def
  projectField_def subKeys_def mediaDoc_def truthy_def

subsection \<open>The detail pipelines, one video at a time\<close>

lemma owner_detail_one:
  "runPipeline (mongoOf E s) (detailOwnerPipeline isGuest viewer) [userDoc u] =
     Inr [ownerDetail s isGuest viewer u]"
  by (simp add: pipeline_simps doc_simps detailOwnerPipeline_def userDoc_def subscriptionDoc_def
      ownerDetail_def subscribersOf_def viewerIn_iff idVal_in_Ids del: runStage.simps(4))

lemma owner_detail_all:
  "runPipeline (mongoOf E s) (detailOwnerPipeline isGuest viewer) (map userDoc us) =
     Inr (map (ownerDetail s isGuest viewer) us)"
  using runPipeline_lift[of "detailOwnerPipeline isGuest viewer" us "mongoOf E s" userDoc
      "\<lambda>u. [ownerDetail s isGuest viewer u]"]
  by (simp add: owner_detail_one) (simp add: detailOwnerPipeline_def)

lemma detail_one:
  "runPipeline (mongoOf E s) (tl (detailPipeline E isGuest viewer i)) [videoDoc v] =
     Inr [detailRecord s isGuest viewer v]"
  by (cases "filter (\<lambda>u. u_id u = v_owner v) (users s)")
    (simp_all add: detailPipeline_def pipeline_simps doc_simps owner_detail_all
      videoDoc_def userDoc_def likeDoc_def detailRecord_def likesOf_def
      viewerIn_iff idVal_in_Ids del: runStage.simps(4))

lemma detail_all:
  "runPipeline (mongoOf E s) (detailPipeline E g viewer i) (map videoDoc vs) =
     Inr (map (detailRecord s g viewer) (filter (\<lambda>v. v_id v = castId E i) vs))"
proof -
  have rest: "runPipeline (mongoOf E s) (tl (detailPipeline E g viewer i)) (map videoDoc xs) =
              Inr (map (detailRecord s g viewer) xs)" for xs
    using runPipeline_lift[of "tl (detailPipeline E g viewer i)" xs "mongoOf E s" videoDoc
        "\<lambda>v. [detailRecord s g viewer v]"]
    by (simp add: detail_one) (simp add: detailPipeline_def)
  have "detailPipeline E g viewer i = Match [(''_id'', Id (castId E i))] # tl (detailPipeline E g viewer i)"
    by (simp add: detailPipeline_def)
  then have "runPipeline (mongoOf E s) (detailPipeline E g viewer i) (map videoDoc vs) =
      runPipeline (mongoOf E s) (tl (detailPipeline E g viewer i))
        (filter (matches [(''_id'', Id (castId E i))]) (map videoDoc vs))"
    by (metis runPipeline_Cons runStage.simps(2) sum.case(2))
  also have "filter (matches [(''_id'', Id (castId E i))]) (map videoDoc vs) =
      map videoDoc (filter (\<lambda>v. v_id v = castId E i) vs)"
    by (simp add: filter_map comp_def matches_def videoDoc_def)
  finally show ?thesis by (simp add: rest)
qed

lemma guest_owner_one:
  "runPipeline (mongoOf E s) guestOwnerPipeline [userDoc u] = Inr [guestOwner s u]"
  by (simp add: pipeline_simps doc_simps guestOwnerPipeline_def userDoc_def subscriptionDoc_def
      guestOwner_def subscribersOf_def del: runStage.simps(4))

lemma guest_owner_all:
  "runPipeline (mongoOf E s) guestOwnerPipeline (map userDoc us) = Inr (map (guestOwner s) us)"
  using runPipeline_lift[of guestOwnerPipeline us "mongoOf E s" userDoc "\<lambda>u. [guestOwner s u]"]
  by (simp add: guest_owner_one) (simp add: guestOwnerPipeline_def)

lemma guest_one:
  "runPipeline (mongoOf E s) (tl (guestPipeline E i)) [videoDoc v] = Inr [guestRecord s v]"
  by (cases "filter (\<lambda>u. u_id u = v_owner v) (users s)")
    (simp_all add: guestPipeline_def pipeline_simps doc_simps guest_owner_all
      videoDoc_def userDoc_def likeDoc_def guestRecord_def likesOf_def del: runStage.simps(4))

lemma guest_all:
  "runPipeline (mongoOf E s) (guestPipeline E i) (map videoDoc vs) =
     Inr (map (guestRecord s) (filter (\<lambda>v. v_id v = castId E i \<and> v_isPublished v) vs))"
proof -
  have rest: "runPipeline (mongoOf E s) (tl (guestPipeline E i)) (map videoDoc xs) =
              Inr (map (guestRecord s) xs)" for xs
    using runPipeline_lift[of "tl (guestPipeline E i)" xs "mongoOf E s" videoDoc
        "\<lambda>v. [guestRecord s v]"]
    by (simp add: guest_one) (simp add: guestPipeline_def)
  have "guestPipeline E i = Match [(''_id'', Id (castId E i)), (''isPublished'', B True)] # tl (guestPipeline E i)"
    by (simp add: guestPipeline_def)
  then have "runPipeline (mongoOf E s) (guestPipeline E i) (map videoDoc vs) =
      runPipeline (mongoOf E s) (tl (guestPipeline E i))
        (filter (matches [(''_id'', Id (castId E i)), (''isPublished'', B True)]) (map videoDoc vs))"
    by (metis runPipeline_Cons runStage.simps(2) sum.case(2))
  also have "filter (matches [(''_id'', Id (castId E i)), (''isPublished'', B True)]) (map videoDoc vs) =
      map videoDoc (filter (\<lambda>v. v_id v = castId E i \<and> v_isPublished v) vs)"
    by (simp add: filter_map comp_def matches_def videoDoc_def)
  finally show ?thesis by (simp add: rest)
qed


subsection \<open>What the handlers return\<close>

lemma getVideoByIdForGuest_result:
  assumes "trim i \<noteq> []" "isValidObjectId E i"
  shows "getVideoByIdForGuest E i w =
           (Inr (200, ApiResponse 200
                   (firstDoc (map (guestRecord (db w))
                      (filter (\<lambda>v. v_id v = castId E i \<and> v_isPublished v) (videos (db w)))))
                   ''Video found''),
            logCall (Aggregate ''videos'') w)"
  using assms
  by (simp add: getVideoByIdForGuest_def Video_aggregate_def guest_all notArray_def)

lemma getVideoById_result:
  assumes "trim i \<noteq> []" "isValidObjectId E i"
  shows "getVideoById E guest viewer i w =
           (if filter (\<lambda>v. v_id v = castId E i) (videos (db w)) = []
            then Inl (ApiError 404 ''Video not found'')
            else Inr (200, ApiResponse 200
                   (firstDoc (map (detailRecord (db w) (guest = Some ''true'') viewer)
                      (filter (\<lambda>v. v_id v = castId E i) (videos (db w)))))
                   ''Video found''),
            logCall (Aggregate ''videos'') w)"
  using assms
  by (simp add: getVideoById_def Video_aggregate_def detail_all Let_def)

lemma getVideoById_returns:
  assumes "trim i \<noteq> []" "isValidObjectId E i"
    and "find (\<lambda>v. v_id v = castId E i) (videos (db w)) = Some v"
  shows "fst (getVideoById E guest viewer i w) =
           Inr (200, ApiResponse 200 (PDoc (detailRecord (db w) (guest = Some ''true'') viewer v))
                  ''Video found'')"
proof -
  from filter_find_Some[OF assms(3)] obtain ys where
    "filter (\<lambda>v. v_id v = castId E i) (videos (db w)) = v # ys" by blast
  then show ?thesis
    by (simp add: getVideoById_result[OF assms(1,2)] firstDoc_def)
qed

lemma ownerDetails_one:
  "runPipeline (mongoOf E s) ownerDetailsLookup [d] =
     Inr (map (\<lambda>u. setField ''ownerDetails'' (Doc (ownerSummary u)) d)
            (filter (\<lambda>u. Id (u_id u) = field ''owner'' d) (users s)))"
proof -
  have f: "filter (\<lambda>f. field ''_id'' f = field ''owner'' d) (map userDoc (users s)) =
           map userDoc (filter (\<lambda>u. Id (u_id u) = field ''owner'' d) (users s))"
    by (simp add: filter_map comp_def userDoc_def)
  show ?thesis
    by (simp add: ownerDetailsLookup_def pipeline_simps project_all f unwindDoc_setField
        ownerSummary_def comp_def del: runStage.simps(4))
qed

lemma ownerDetails_all:
  "runPipeline (mongoOf E s) ownerDetailsLookup ds = Inr (joinStep s ds)"
  using runPipeline_lift[of ownerDetailsLookup ds "mongoOf E s" "\<lambda>d. d"
      "\<lambda>d. map (\<lambda>u. setField ''ownerDetails'' (Doc (ownerSummary u)) d)
            (filter (\<lambda>u. Id (u_id u) = field ''owner'' d) (users s))"]
  by (simp add: ownerDetails_one joinStep_def) (simp add: ownerDetailsLookup_def)

lemma getAllVideos_feed:
  "getAllVideos E q w =
     (if given (userId q) \<and> \<not> isValidObjectId E (str (userId q))
      then (Inl (ApiError 400 ''Invalid userId''), w)
      else (Inr (200, ApiResponse 200 (PPage (feed E q (db w))) ''Videos fetched successfully''),
            logCall (AggregatePaginate ''videos'') w))"
  by (simp add: getAllVideos_def Let_def Video_aggregatePaginate_def feed_def pageStep_def
      runPipeline_Cons mongoOf_simps ownerDetails_all matches_one[abs_def]
      searchStep_def ownerStep_def publishedStep_def sortStep_def)

lemma feed_published:
  assumes "\<And>p l ds. set (aggregatePaginate E p l ds) \<subseteq> set ds"
    and "d \<in> set (feed E q s)"
  shows "field ''isPublished'' d = B True"
proof -
  let ?sorted = "sortStep E q (publishedStep (ownerStep E q (searchStep E q (map videoDoc (videos s)))))"
  from assms have "d \<in> set (joinStep s ?sorted)"
    unfolding feed_def pageStep_def by blast
  then obtain d0 u where d0: "d0 \<in> set ?sorted"
    and d: "d = setField ''ownerDetails'' (Doc (ownerSummary u)) d0"
    by (auto simp: joinStep_def)
  from d0 have "d0 \<in> set (publishedStep (ownerStep E q (searchStep E q (map videoDoc (videos s)))))"
    by (simp add: sortStep_def set_sortDocs split: if_splits)
  then have "field ''isPublished'' d0 = B True"
    by (simp add: publishedStep_def)
  with d show ?thesis by (simp add: field_setField)
qed

lemma channel_pipeline:
  "runPipeline (mongoOf E s) (channelPipeline viewer name) (map userDoc us) =
     (if filter (\<lambda>u. u_username u = toLowerCase name) us = [] then Inr []
      else Inl SizeNotArray)"
proof -
  let ?sel = "filter (\<lambda>u. u_username u = toLowerCase name) us"
  have m: "filter (matches [(''username'', S (toLowerCase name))]) (map userDoc us) =
           map userDoc ?sel"
    by (simp add: filter_map comp_def matches_def userDoc_def)
  show ?thesis
  proof (cases ?sel)
    case Nil
    then show ?thesis
      by (simp add: channelPipeline_def runPipeline_Cons runPipeline_Nil lookup_plain m
          del: runStage.simps(4))
  next
    case (Cons u rest)
    then show ?thesis
      by (simp add: channelPipeline_def runPipeline_Cons runPipeline_Nil lookup_plain m
          coll_mongoOf collections_def addFields_def setField_def userDoc_def
          del: runStage.simps(4))
  qed
qed

lemma getUserChannelProfile_result:
  assumes "trim name \<noteq> []"
  shows "fst (getUserChannelProfile E viewer name w) =
           (if filter (\<lambda>u. u_username u = toLowerCase name) (users (db w)) = []
            then Inl (ApiError 404 ''channel does not exists'')
            else Inl (MongoError SizeNotArray))"
  using assms
  by (simp add: getUserChannelProfile_def User_aggregate_def channel_pipeline)

lemma updateVideoViews_absent:
  assumes "isValidObjectId E videoId"
    and "find (\<lambda>v. v_id v = castId E videoId) (videos (db w)) = Some v"
    and "find (\<lambda>x. u_id x = uid) (users (db w)) = Some u"
    and "find (\<lambda>e. h_video e = videoId) (u_watchHistory u) = None"
  shows "updateVideoViews E t (Some uid) videoId w =
           (Inr (200, ApiResponse 200
                   (PVideoUser v (u\<lparr>u_watchHistory := u_watchHistory u @
                      [\<lparr>h_video = castId E videoId, h_watchedAt = t\<rparr>]\<rparr>))
                   ''Video views updated successfully''),
            \<lparr>db = (db w)\<lparr>videos := updateFirst (\<lambda>v. v_id v = castId E videoId)
                                      (\<lambda>v. v\<lparr>v_views := v_views v + 1\<rparr>) (videos (db w)),
                          users := updateFirst (\<lambda>x. u_id x = uid)
                                     (\<lambda>x. u\<lparr>u_watchHistory := u_watchHistory u @
                                        [\<lparr>h_video = castId E videoId, h_watchedAt = t\<rparr>]\<rparr>)
                                     (users (db w))\<rparr>,
             calls = calls w @ [FindById ''videos'' videoId, FindById ''users'' uid,
                                FindByIdAndUpdate ''videos'' (castId E videoId),
                                Save ''users'' uid]\<rparr>)"
  using assms find_Some_holds[OF assms(3)]
  by (simp add: updateVideoViews_def Video_findById_def User_findById_def Video_incViews_def
      User_save_def logCall_def str_def Let_def)

lemma updateVideoViews_present:
  assumes "isValidObjectId E videoId"
    and "find (\<lambda>v. v_id v = castId E videoId) (videos (db w)) = Some v"
    and "find (\<lambda>x. u_id x = uid) (users (db w)) = Some u"
    and "find (\<lambda>e. h_video e = videoId) (u_watchHistory u) = Some e"
  shows "updateVideoViews E t (Some uid) videoId w =
           (Inr (200, ApiResponse 200
                   (PVideoUser v (u\<lparr>u_watchHistory := updateFirst (\<lambda>e. h_video e = videoId)
                      (\<lambda>e. e\<lparr>h_watchedAt := t\<rparr>) (u_watchHistory u)\<rparr>))
                   ''Video views updated successfully''),
            \<lparr>db = (db w)\<lparr>users := updateFirst (\<lambda>x. u_id x = uid)
                                     (\<lambda>x. u\<lparr>u_watchHistory := updateFirst (\<lambda>e. h_video e = videoId)
                                        (\<lambda>e. e\<lparr>h_watchedAt := t\<rparr>) (u_watchHistory u)\<rparr>)
                                     (users (db w))\<rparr>,
             calls = calls w @ [FindById ''videos'' videoId, FindById ''users'' uid,
                                Save ''users'' uid]\<rparr>)"
  using assms find_Some_holds[OF assms(3)]
  by (simp add: updateVideoViews_def Video_findById_def User_findById_def
      User_save_def logCall_def str_def Let_def)

lemma deleteVideo_success:
  assumes "isValidObjectId E i"
    and "find (\<lambda>v. v_id v = castId E i) (videos (db w)) = Some v"
    and "find (\<lambda>v. v_id v = castId E i) (videos (others (db w))) = Some v'"
    and "fileId (v_video v) \<noteq> []" "fileId (v_thumbnail v) \<noteq> []"
  shows "deleteVideo E others i w =
           (Inr (200, ApiResponse 200 PNull ''Video deleted successfully''),
            \<lparr>db = (others (db w))\<lparr>
                    videos := removeFirst (\<lambda>v. v_id v = castId E i) (videos (others (db w))),
                    likes := filter (\<lambda>l. l_video l \<noteq> castId E i) (likes (others (db w))),
                    comments := filter (\<lambda>c. c_video c \<noteq> castId E i) (comments (others (db w)))\<rparr>,
             calls = calls w @ [FindById ''videos'' i, FindByIdAndDelete ''videos'' (castId E i),
                                Destroy (fileId (v_video v)), Destroy (fileId (v_thumbnail v)),
                                DeleteMany ''likes'' (castId E i), DeleteMany ''comments'' (castId E i)]\<rparr>)"
  using assms
  by (simp add: deleteVideo_def Video_findById_def Video_findByIdAndDelete_def Like_deleteMany_def
      Comment_deleteMany_def deleteFromCloudinary_def logCall_def Let_def)

lemma deleteVideo_failed:
  assumes "isValidObjectId E i"
    and "find (\<lambda>v. v_id v = castId E i) (videos (db w)) = Some v"
    and "find (\<lambda>v. v_id v = castId E i) (videos (others (db w))) = None"
  shows "deleteVideo E others i w =
           (Inl (ApiError 500 ''Video deletion failed''),
            \<lparr>db = (others (db w))\<lparr>
                    videos := removeFirst (\<lambda>v. v_id v = castId E i) (videos (others (db w)))\<rparr>,
             calls = calls w @ [FindById ''videos'' i, FindByIdAndDelete ''videos'' (castId E i)]\<rparr>)"
  using assms
  by (simp add: deleteVideo_def Video_findById_def Video_findByIdAndDelete_def logCall_def)

lemma getVideoByIdForGuest_invalid:
  "\<not> isValidObjectId E i \<Longrightarrow>
     getVideoByIdForGuest E i w =
       (Inl (ApiError 400 (if trim i = [] then ''Video Id is missing'' else ''Invalid VideoID'')), w)"
  by (simp add: getVideoByIdForGuest_def)

lemma getVideoById_invalid:
  "\<not> isValidObjectId E i \<Longrightarrow>
     getVideoById E guest viewer i w =
       (Inl (ApiError 400 (if trim i = [] then ''Video Id is missing'' else ''Invalid VideoID'')), w)"
  by (simp add: getVideoById_def)

lemma updateVideoViews_invalid:
  "\<not> isValidObjectId E i \<Longrightarrow>
     updateVideoViews E now viewer i w = (Inl (ApiError 400 ''Invalid videoId''), w)"
  by (simp add: updateVideoViews_def)

subsection \<open>The sample store\<close>

lemmas sample_defs = sampleWorld_def sampleStore_def sampleEnv_def aliceId_def bobId_def pubId_def
  draftId_def unknownId_def pubVideo_def draftVideo_def alice_def bob_def isHexDigit_def

lemma sample_valid:
  "isValidObjectId sampleEnv pubId" "isValidObjectId sampleEnv draftId"
  "isValidObjectId sampleEnv unknownId" "isValidObjectId sampleEnv aliceId"
  "isValidObjectId sampleEnv bobId"
  "trim pubId \<noteq> []" "trim draftId \<noteq> []" "trim unknownId \<noteq> []"
  by (simp_all add: sample_defs trim_def isSpace_def)

lemma sample_cast:
  "castId sampleEnv pubId = pubId" "castId sampleEnv draftId = draftId"
  "castId sampleEnv unknownId = unknownId" "castId sampleEnv aliceId = aliceId"
  by (simp_all add: sample_defs toLowerCase_def toLowerChar_def capitals_def smalls_def)

lemma sample_find:
  "find (\<lambda>v. v_id v = castId sampleEnv pubId) (videos (db sampleWorld)) = Some pubVideo"
  "find (\<lambda>v. v_id v = castId sampleEnv draftId) (videos (db sampleWorld)) = Some draftVideo"
  "find (\<lambda>x. u_id x = bobId) (users (db sampleWorld)) = Some bob"
  "find (\<lambda>x. u_id x = aliceId) (users (db sampleWorld)) = Some alice"
  unfolding sample_cast by (simp_all add: sample_defs)

lemma sample_feed:
  "feed sampleEnv allQuery sampleStore =
     [[(''_id'', Id pubId),
       (''video'', Doc [(''fileId'', S ''vid-1''), (''url'', S ''https://cdn/vid-1'')]),
       (''thumbnail'', Doc [(''fileId'', S ''thumb-1''), (''url'', S ''https://cdn/thumb-1'')]),
       (''title'', S ''Intro''),
       (''description'', S ''First video''),
       (''duration'', N 60),
       (''views'', N 7),
       (''isPublished'', B True),
       (''owner'', Id aliceId),
       (''createdAt'', N 1000),
       (''ownerDetails'', Doc [(''_id'', Id aliceId), (''username'', S ''alice''),
                               (''avatar'', Doc [(''url'', S ''https://cdn/av-1'')])])]]"
  by (simp add: feed_def pageStep_def joinStep_def sortStep_def publishedStep_def ownerStep_def
      searchStep_def ownerSummary_def allQuery_def sample_defs given_def str_def videoDoc_def
      userDoc_def mediaDoc_def sortDocs_def setField_def projectDoc_def projectField_def
      subKeys_def parseParam_def parseInt_def toDouble_def isSpace_def isDigit_def digitOf_def
      samplePaginate_def toLowerCase_def toLowerChar_def capitals_def smalls_def)


section \<open>The claims\<close>

subsection \<open>Watch-history upsert\<close>

text \<open>
  Claim C1. The claim asks that, for every viewer and video, \<open>updateVideoViews\<close> add 1
  to the view counter and append an entry when the history has no entry for the video,
  and only restamp the entry when it has one, so that two calls in succession count
  once and leave one entry. The scan of the history compares
  \<open>entry.video.toString()\<close>, which prints the identifier's digits in lower case, with
  the string of the request as it was sent. A request that spells the identifier of a
  video with an upper-case digit passes \<open>isValidObjectId\<close> and finds the video, but
  never finds the entry an earlier call pushed for it. On the sample store Bob calls
  twice with such a spelling of the published video's identifier: the counter goes from
  7 to 8 and then to 9, and his history ends with two entries for the video.
\<close>

theorem upsert_of_respelled_identifier:
  "isValidObjectId sampleEnv upperPubId \<and> castId sampleEnv upperPubId = pubId \<and>
   viewsOf sampleWorld pubId = Some 7 \<and> historyOf sampleWorld bobId = Some [] \<and>
   viewsOf (snd (updateVideoViews sampleEnv 200 (Some bobId) upperPubId sampleWorld)) pubId =
     Some 8 \<and>
   historyOf (snd (updateVideoViews sampleEnv 200 (Some bobId) upperPubId sampleWorld)) bobId =
     Some [\<lparr>h_video = pubId, h_watchedAt = 200\<rparr>] \<and>
   viewsOf (snd (updateVideoViews sampleEnv 300 (Some bobId) upperPubId
      (snd (updateVideoViews sampleEnv 200 (Some bobId) upperPubId sampleWorld)))) pubId =
     Some 9 \<and>
   historyOf (snd (updateVideoViews sampleEnv 300 (Some bobId) upperPubId
      (snd (updateVideoViews sampleEnv 200 (Some bobId) upperPubId sampleWorld)))) bobId =
     Some [\<lparr>h_video = pubId, h_watchedAt = 200\<rparr>, \<lparr>h_video = pubId, h_watchedAt = 300\<rparr>]"
proof -
  have v: "isValidObjectId sampleEnv upperPubId"
    by (simp add: sample_defs upperPubId_def)
  have c: "castId sampleEnv upperPubId = pubId"
    by (simp add: sample_defs upperPubId_def toLowerCase_def toLowerChar_def capitals_def smalls_def)
  have f: "find (\<lambda>v. v_id v = castId sampleEnv upperPubId) (videos (db sampleWorld)) = Some pubVideo"
    unfolding c by (simp add: sample_defs)
  have n: "find (\<lambda>e. h_video e = upperPubId) (u_watchHistory bob) = None"
    by (simp add: bob_def)
  note first = updateVideoViews_absent[OF v f sample_find(3) n, of 200, unfolded c]
  let ?bob1 = "bob\<lparr>u_watchHistory := u_watchHistory bob @ [\<lparr>h_video = pubId, h_watchedAt = 200\<rparr>]\<rparr>"
  let ?w1 = "snd (updateVideoViews sampleEnv 200 (Some bobId) upperPubId sampleWorld)"
  have f1: "find (\<lambda>v. v_id v = castId sampleEnv upperPubId) (videos (db ?w1)) =
              Some (pubVideo\<lparr>v_views := v_views pubVideo + 1\<rparr>)"
    unfolding first c by (simp add: sample_defs)
  have u1: "find (\<lambda>x. u_id x = bobId) (users (db ?w1)) = Some ?bob1"
    unfolding first by (simp add: sample_defs)
  have n1: "find (\<lambda>e. h_video e = upperPubId) (u_watchHistory ?bob1) = None"
    by (simp add: bob_def pubId_def upperPubId_def)
  note second = updateVideoViews_absent[OF v f1 u1 n1, of 300, unfolded c]
  have s0: "viewsOf sampleWorld pubId = Some 7" "historyOf sampleWorld bobId = Some []"
    by (simp_all add: viewsOf_def historyOf_def sample_defs)
  have s1: "viewsOf ?w1 pubId = Some 8"
    using f1 unfolding c by (simp add: viewsOf_def pubVideo_def)
  have s2: "historyOf ?w1 bobId = Some [\<lparr>h_video = pubId, h_watchedAt = 200\<rparr>]"
    using u1 by (simp add: historyOf_def bob_def)
  have s3: "viewsOf (snd (updateVideoViews sampleEnv 300 (Some bobId) upperPubId ?w1)) pubId = Some 9"
    unfolding second viewsOf_def using f1[unfolded c] find_Some_holds[OF f1[unfolded c]]
    by (simp add: find_updateFirst pubVideo_def)
  have s4: "historyOf (snd (updateVideoViews sampleEnv 300 (Some bobId) upperPubId ?w1)) bobId =
     Some [\<lparr>h_video = pubId, h_watchedAt = 200\<rparr>, \<lparr>h_video = pubId, h_watchedAt = 300\<rparr>]"
    unfolding second historyOf_def using u1 find_Some_holds[OF u1]
    by (simp add: find_updateFirst bob_def)
  show ?thesis
    by (intro conjI) (rule v c s0 s1 s2 s3 s4)+
qed

text \<open>
  With the identifier spelled as the store prints it, the upsert is what the
  specification says. For a viewer and a video that both exist, \<open>updateVideoViews\<close>
  called when the viewer's history has no entry for the video adds 1 to the video's view
  counter and appends the entry \<open>{video, watchedAt = now}\<close>; a second call then leaves
  the counter where the first put it and the history with exactly one entry for the
  video, stamped with the second call's time. Called when the history already has an
  entry for the video, it leaves every video as it was and changes nothing in the
  history but the \<open>watchedAt\<close> of the first entry for the video.
\<close>

theorem updateVideoViews_upsert:
  assumes valid: "isValidObjectId E videoId"
    and canon: "castId E videoId = videoId"
    and vid: "find (\<lambda>v. v_id v = videoId) (videos (db w)) = Some v"
    and usr: "find (\<lambda>x. u_id x = uid) (users (db w)) = Some u"
  shows "(find (\<lambda>e. h_video e = videoId) (u_watchHistory u) = None \<longrightarrow>
           (let w1 = snd (updateVideoViews E t1 (Some uid) videoId w);
                w2 = snd (updateVideoViews E t2 (Some uid) videoId w1)
            in viewsOf w1 videoId = Some (v_views v + 1) \<and>
               historyOf w1 uid =
                 Some (u_watchHistory u @ [\<lparr>h_video = videoId, h_watchedAt = t1\<rparr>]) \<and>
               viewsOf w2 videoId = Some (v_views v + 1) \<and>
               historyOf w2 uid =
                 Some (u_watchHistory u @ [\<lparr>h_video = videoId, h_watchedAt = t2\<rparr>]) \<and>
               filter (\<lambda>e. h_video e = videoId)
                 (u_watchHistory u @ [\<lparr>h_video = videoId, h_watchedAt = t2\<rparr>]) =
                 [\<lparr>h_video = videoId, h_watchedAt = t2\<rparr>])) \<and>
         (\<forall>e. find (\<lambda>e. h_video e = videoId) (u_watchHistory u) = Some e \<longrightarrow>
           (let w1 = snd (updateVideoViews E t1 (Some uid) videoId w)
            in videos (db w1) = videos (db w) \<and>
               viewsOf w1 videoId = Some (v_views v) \<and>
               (\<exists>pre post. u_watchHistory u = pre @ e # post \<and>
                   (\<forall>x \<in> set pre. h_video x \<noteq> videoId) \<and>
                   historyOf w1 uid = Some (pre @ e\<lparr>h_watchedAt := t1\<rparr> # post))))"
proof (intro conjI impI allI)
  assume absent: "find (\<lambda>e. h_video e = videoId) (u_watchHistory u) = None"
  have vid': "find (\<lambda>v. v_id v = castId E videoId) (videos (db w)) = Some v"
    using vid canon by simp
  let ?P = "\<lambda>e. h_video e = videoId"
  let ?e1 = "\<lparr>h_video = videoId, h_watchedAt = t1\<rparr>"
  let ?e2 = "\<lparr>h_video = videoId, h_watchedAt = t2\<rparr>"
  let ?u1 = "u\<lparr>u_watchHistory := u_watchHistory u @ [?e1]\<rparr>"
  let ?v1 = "v\<lparr>v_views := v_views v + 1\<rparr>"
  define w1 where "w1 = snd (updateVideoViews E t1 (Some uid) videoId w)"
  define w2 where "w2 = snd (updateVideoViews E t2 (Some uid) videoId w1)"
  have uid: "u_id u = uid" using find_Some_holds[OF usr] .
  have vidid: "v_id v = videoId" using find_Some_holds[OF vid] .
  have w1_eq: "videos (db w1) =
                 updateFirst (\<lambda>v. v_id v = videoId) (\<lambda>v. v\<lparr>v_views := v_views v + 1\<rparr>)
                   (videos (db w))"
              "users (db w1) = updateFirst (\<lambda>x. u_id x = uid) (\<lambda>x. ?u1) (users (db w))"
    unfolding w1_def updateVideoViews_absent[OF valid vid' usr absent, unfolded canon] by simp_all
  have vid1: "find (\<lambda>v. v_id v = videoId) (videos (db w1)) = Some ?v1"
    unfolding w1_eq by (rule find_updateFirst[OF vid]) (simp add: vidid)
  have usr1: "find (\<lambda>x. u_id x = uid) (users (db w1)) = Some ?u1"
    unfolding w1_eq by (rule find_updateFirst[OF usr]) (simp add: uid)
  have vid1': "find (\<lambda>v. v_id v = castId E videoId) (videos (db w1)) = Some ?v1"
    using vid1 canon by simp
  have present: "find ?P (u_watchHistory ?u1) = Some ?e1"
    using absent by (simp add: find_append_None)
  have hist2: "updateFirst ?P (\<lambda>e. e\<lparr>h_watchedAt := t2\<rparr>) (u_watchHistory ?u1) =
               u_watchHistory u @ [?e2]"
    using absent by (simp add: updateFirst_append_None)
  let ?u2 = "?u1\<lparr>u_watchHistory := u_watchHistory u @ [?e2]\<rparr>"
  have w2_eq: "videos (db w2) = videos (db w1)"
              "users (db w2) = updateFirst (\<lambda>x. u_id x = uid) (\<lambda>x. ?u2) (users (db w1))"
    unfolding w2_def updateVideoViews_present[OF valid vid1' usr1 present, unfolded canon] hist2 by simp_all
  have usr2: "find (\<lambda>x. u_id x = uid) (users (db w2)) = Some ?u2"
    unfolding w2_eq by (rule find_updateFirst[OF usr1]) (simp add: uid)
  have "viewsOf w1 videoId = Some (v_views v + 1)"
    by (simp add: viewsOf_def vid1)
  moreover have "historyOf w1 uid = Some (u_watchHistory u @ [?e1])"
    by (simp add: historyOf_def usr1)
  moreover have "viewsOf w2 videoId = Some (v_views v + 1)"
    by (simp add: viewsOf_def w2_eq vid1)
  moreover have "historyOf w2 uid = Some (u_watchHistory u @ [?e2])"
    by (simp add: historyOf_def usr2)
  moreover have "filter ?P (u_watchHistory u @ [?e2]) = [?e2]"
    using absent by (simp add: filter_find_None)
  ultimately show "let w1 = snd (updateVideoViews E t1 (Some uid) videoId w);
                w2 = snd (updateVideoViews E t2 (Some uid) videoId w1)
            in viewsOf w1 videoId = Some (v_views v + 1) \<and>
               historyOf w1 uid =
                 Some (u_watchHistory u @ [\<lparr>h_video = videoId, h_watchedAt = t1\<rparr>]) \<and>
               viewsOf w2 videoId = Some (v_views v + 1) \<and>
               historyOf w2 uid =
                 Some (u_watchHistory u @ [\<lparr>h_video = videoId, h_watchedAt = t2\<rparr>]) \<and>
               filter (\<lambda>e. h_video e = videoId)
                 (u_watchHistory u @ [\<lparr>h_video = videoId, h_watchedAt = t2\<rparr>]) =
                 [\<lparr>h_video = videoId, h_watchedAt = t2\<rparr>]"
    unfolding Let_def w1_def w2_def by blast
next
  fix e
  assume present: "find (\<lambda>e. h_video e = videoId) (u_watchHistory u) = Some e"
  have vid': "find (\<lambda>v. v_id v = castId E videoId) (videos (db w)) = Some v"
    using vid canon by simp
  let ?P = "\<lambda>e. h_video e = videoId"
  let ?h = "updateFirst ?P (\<lambda>e. e\<lparr>h_watchedAt := t1\<rparr>) (u_watchHistory u)"
  let ?u1 = "u\<lparr>u_watchHistory := ?h\<rparr>"
  define w1 where "w1 = snd (updateVideoViews E t1 (Some uid) videoId w)"
  have uid: "u_id u = uid" using find_Some_holds[OF usr] .
  have w1_eq: "videos (db w1) = videos (db w)"
              "users (db w1) = updateFirst (\<lambda>x. u_id x = uid) (\<lambda>x. ?u1) (users (db w))"
    unfolding w1_def updateVideoViews_present[OF valid vid' usr present, unfolded canon] by simp_all
  have usr1: "find (\<lambda>x. u_id x = uid) (users (db w1)) = Some ?u1"
    unfolding w1_eq by (rule find_updateFirst[OF usr]) (simp add: uid)
  from updateFirst_split[OF present, of "\<lambda>e. e\<lparr>h_watchedAt := t1\<rparr>"]
  obtain pre post where split: "u_watchHistory u = pre @ e # post"
      "\<forall>x \<in> set pre. h_video x \<noteq> videoId" "?h = pre @ e\<lparr>h_watchedAt := t1\<rparr> # post"
    by blast
  have "historyOf w1 uid = Some (pre @ e\<lparr>h_watchedAt := t1\<rparr> # post)"
    by (simp add: historyOf_def usr1 split(3))
  with split w1_eq(1) vid
  show "let w1 = snd (updateVideoViews E t1 (Some uid) videoId w)
            in videos (db w1) = videos (db w) \<and>
               viewsOf w1 videoId = Some (v_views v) \<and>
               (\<exists>pre post. u_watchHistory u = pre @ e # post \<and>
                   (\<forall>x \<in> set pre. h_video x \<noteq> videoId) \<and>
                   historyOf w1 uid = Some (pre @ e\<lparr>h_watchedAt := t1\<rparr> # post))"
    unfolding Let_def w1_def[symmetric] viewsOf_def by auto
qed

text \<open>
  On the sample store: Bob, who has not watched Alice's published video, calls twice
  (the counter goes from 7 to 8 once, one entry stamped 300 remains); Alice, who has,
  calls once (the counter stays at 7, her entry is restamped).
\<close>

theorem updateVideoViews_upsert_witness:
  "viewsOf (snd (updateVideoViews sampleEnv 200 (Some bobId) pubId sampleWorld)) pubId = Some 8 \<and>
   historyOf (snd (updateVideoViews sampleEnv 200 (Some bobId) pubId sampleWorld)) bobId =
     Some [\<lparr>h_video = pubId, h_watchedAt = 200\<rparr>] \<and>
   viewsOf (snd (updateVideoViews sampleEnv 300 (Some bobId) pubId
      (snd (updateVideoViews sampleEnv 200 (Some bobId) pubId sampleWorld)))) pubId = Some 8 \<and>
   historyOf (snd (updateVideoViews sampleEnv 300 (Some bobId) pubId
      (snd (updateVideoViews sampleEnv 200 (Some bobId) pubId sampleWorld)))) bobId =
     Some [\<lparr>h_video = pubId, h_watchedAt = 300\<rparr>] \<and>
   viewsOf (snd (updateVideoViews sampleEnv 200 (Some aliceId) pubId sampleWorld)) pubId = Some 7 \<and>
   historyOf (snd (updateVideoViews sampleEnv 200 (Some aliceId) pubId sampleWorld)) aliceId =
     Some [\<lparr>h_video = pubId, h_watchedAt = 200\<rparr>]"
proof -
  have b: "find (\<lambda>e. h_video e = pubId) (u_watchHistory bob) = None"
    by (simp add: bob_def)
  have a: "find (\<lambda>e. h_video e = pubId) (u_watchHistory alice) =
             Some \<lparr>h_video = pubId, h_watchedAt = 100\<rparr>"
    by (simp add: alice_def)
  have vb: "v_views pubVideo + 1 = 8" "v_views pubVideo = 7" "u_watchHistory bob = []"
    by (simp_all add: pubVideo_def bob_def)
  from updateVideoViews_upsert[OF sample_valid(1) sample_cast(1) sample_find(1)[unfolded sample_cast] sample_find(3),
      of 200 300] b
  have "viewsOf (snd (updateVideoViews sampleEnv 200 (Some bobId) pubId sampleWorld)) pubId = Some 8 \<and>
   historyOf (snd (updateVideoViews sampleEnv 200 (Some bobId) pubId sampleWorld)) bobId =
     Some [\<lparr>h_video = pubId, h_watchedAt = 200\<rparr>] \<and>
   viewsOf (snd (updateVideoViews sampleEnv 300 (Some bobId) pubId
      (snd (updateVideoViews sampleEnv 200 (Some bobId) pubId sampleWorld)))) pubId = Some 8 \<and>
   historyOf (snd (updateVideoViews sampleEnv 300 (Some bobId) pubId
      (snd (updateVideoViews sampleEnv 200 (Some bobId) pubId sampleWorld)))) bobId =
     Some [\<lparr>h_video = pubId, h_watchedAt = 300\<rparr>]"
    by (simp add: Let_def vb)
  moreover
  from updateVideoViews_upsert[OF sample_valid(1) sample_cast(1) sample_find(1)[unfolded sample_cast] sample_find(4),
      of 200 300] a
  obtain pre post where
    "u_watchHistory alice = pre @ \<lparr>h_video = pubId, h_watchedAt = 100\<rparr> # post"
    "viewsOf (snd (updateVideoViews sampleEnv 200 (Some aliceId) pubId sampleWorld)) pubId = Some 7"
    "historyOf (snd (updateVideoViews sampleEnv 200 (Some aliceId) pubId sampleWorld)) aliceId =
       Some (pre @ \<lparr>h_video = pubId, h_watchedAt = 100\<rparr>\<lparr>h_watchedAt := 200\<rparr> # post)"
    by (auto simp: Let_def vb)
  then have "viewsOf (snd (updateVideoViews sampleEnv 200 (Some aliceId) pubId sampleWorld)) pubId =
               Some 7 \<and>
   historyOf (snd (updateVideoViews sampleEnv 200 (Some aliceId) pubId sampleWorld)) aliceId =
     Some [\<lparr>h_video = pubId, h_watchedAt = 200\<rparr>]"
    by (auto simp: alice_def append_eq_Cons_conv Cons_eq_append_conv)
  ultimately show ?thesis by blast
qed

subsection \<open>Video detail for guests\<close>

text \<open>
  Claim C2. The claim asks that \<open>getVideoByIdForGuest\<close> fail with Not-Found, in the
  same way, for an identifier no video has and for the identifier of an unpublished
  video. The handler guards its 404 with \<open>!video\<close>, and \<open>video\<close> is the array the
  aggregation returns, which is truthy also when empty. On the sample store the reply
  for an unknown identifier and for the unpublished video is the success reply with
  status 200 and an undefined payload.
\<close>

theorem guest_fetch_of_hidden_video:
  "fst (getVideoByIdForGuest sampleEnv unknownId sampleWorld) =
     Inr (200, ApiResponse 200 Undefined ''Video found'') \<and>
   fst (getVideoByIdForGuest sampleEnv draftId sampleWorld) =
     Inr (200, ApiResponse 200 Undefined ''Video found'')"
  by (simp add: getVideoByIdForGuest_result sample_valid sample_cast firstDoc_def)
    (simp add: sample_defs)

text \<open>
  Claim C3. The claim asks that the guest detail of a published video carry
  \<open>isLiked = false\<close>, \<open>isSubscribed = false\<close>, the number of likes of the video and
  the number of subscriptions to its owner. The owner lookup adds
  \<open>isSubscribed: false\<close> and then projects it away, and the outer projection finds no
  top-level field of that name. On the sample store the reply for the published video
  has the two counts and \<open>isLiked = false\<close>, and no \<open>isSubscribed\<close> anywhere.
\<close>

theorem guest_detail_without_isSubscribed:
  "fst (getVideoByIdForGuest sampleEnv pubId sampleWorld) =
     Inr (200, ApiResponse 200
       (PDoc [(''_id'', Id pubId),
              (''video'', Doc [(''url'', S ''https://cdn/vid-1'')]),
              (''title'', S ''Intro''),
              (''description'', S ''First video''),
              (''duration'', N 60),
              (''views'', N 7),
              (''owner'', Doc [(''_id'', Id aliceId), (''username'', S ''alice''),
                               (''avatar'', Doc [(''url'', S ''https://cdn/av-1'')]),
                               (''subscribersCount'', N 1)]),
              (''createdAt'', N 1000),
              (''likesCount'', N 2),
              (''isLiked'', B False)])
       ''Video found'')"
  by (simp add: getVideoByIdForGuest_result sample_valid sample_cast firstDoc_def)
    (simp add: sample_defs guestRecord_def guestOwner_def likesOf_def subscribersOf_def)

text \<open>
  For every valid identifier the guest handler replies with a success: with the record
  of the first published video of that identifier, or with an undefined payload when
  there is none. It never fails with Not-Found.
\<close>

theorem guest_reply_is_always_success:
  assumes "trim i \<noteq> []" "isValidObjectId E i"
  shows "fst (getVideoByIdForGuest E i w) =
           Inr (200, ApiResponse 200
                  (case filter (\<lambda>v. v_id v = castId E i \<and> v_isPublished v) (videos (db w)) of
                     [] \<Rightarrow> Undefined
                   | v # _ \<Rightarrow> PDoc (guestRecord (db w) v))
                  ''Video found'')"
  by (simp add: getVideoByIdForGuest_result[OF assms] firstDoc_def split: list.splits)

theorem guest_reply_is_always_success_witness:
  "trim unknownId \<noteq> [] \<and> isValidObjectId sampleEnv unknownId \<and>
   filter (\<lambda>v. v_id v = castId sampleEnv unknownId \<and> v_isPublished v) (videos (db sampleWorld)) = [] \<and>
   fst (getVideoByIdForGuest sampleEnv unknownId sampleWorld) =
     Inr (200, ApiResponse 200 Undefined ''Video found'')"
proof -
  have e: "filter (\<lambda>v. v_id v = castId sampleEnv unknownId \<and> v_isPublished v)
             (videos (db sampleWorld)) = []"
    unfolding sample_cast by (simp add: sample_defs)
  from guest_reply_is_always_success[OF sample_valid(8) sample_valid(3), of sampleWorld]
  have r: "fst (getVideoByIdForGuest sampleEnv unknownId sampleWorld) =
     Inr (200, ApiResponse 200 Undefined ''Video found'')"
    unfolding e by simp
  show ?thesis
    by (intro conjI) (rule sample_valid(8) sample_valid(3) e r)+
qed

text \<open>
  For a published video whose owner exists, the guest record has \<open>isLiked = false\<close>,
  the number of likes that reference the video and, under \<open>owner\<close>, the number of
  subscriptions whose channel is the owner; it has no \<open>isSubscribed\<close>, neither at
  the top nor under \<open>owner\<close>.
\<close>

theorem guest_detail_counts:
  assumes "trim i \<noteq> []" "isValidObjectId E i"
    and "find (\<lambda>v. v_id v = castId E i \<and> v_isPublished v) (videos (db w)) = Some v"
    and "find (\<lambda>u. u_id u = v_owner v) (users (db w)) = Some u"
  shows "\<exists>d. fst (getVideoByIdForGuest E i w) = Inr (200, ApiResponse 200 (PDoc d) ''Video found'') \<and>
             field ''isLiked'' d = B False \<and>
             field ''likesCount'' d =
               N (int (length (filter (\<lambda>l. l_video l = v_id v) (likes (db w))))) \<and>
             getPath [''owner'', ''subscribersCount''] (Doc d) =
               N (int (length (filter (\<lambda>x. s_channel x = v_owner v) (subscriptions (db w))))) \<and>
             field ''isSubscribed'' d = Missing \<and>
             getPath [''owner'', ''isSubscribed''] (Doc d) = Missing"
proof -
  from filter_find_Some[OF assms(3)] obtain vs where
    vs: "filter (\<lambda>v. v_id v = castId E i \<and> v_isPublished v) (videos (db w)) = v # vs" by blast
  from filter_find_Some[OF assms(4)] obtain us where
    us: "filter (\<lambda>u. u_id u = v_owner v) (users (db w)) = u # us" by blast
  have uid: "u_id u = v_owner v" using find_Some_holds[OF assms(4)] .
  have "fst (getVideoByIdForGuest E i w) =
          Inr (200, ApiResponse 200 (PDoc (guestRecord (db w) v)) ''Video found'')"
    by (simp add: getVideoByIdForGuest_result[OF assms(1,2)] vs firstDoc_def)
  moreover have "field ''isLiked'' (guestRecord (db w) v) = B False"
    "field ''likesCount'' (guestRecord (db w) v) =
       N (int (length (filter (\<lambda>l. l_video l = v_id v) (likes (db w)))))"
    "getPath [''owner'', ''subscribersCount''] (Doc (guestRecord (db w) v)) =
       N (int (length (filter (\<lambda>x. s_channel x = v_owner v) (subscriptions (db w)))))"
    "field ''isSubscribed'' (guestRecord (db w) v) = Missing"
    "getPath [''owner'', ''isSubscribed''] (Doc (guestRecord (db w) v)) = Missing"
    by (simp_all add: guestRecord_def guestOwner_def us likesOf_def subscribersOf_def uid)
  ultimately show ?thesis by blast
qed

theorem guest_detail_counts_witness:
  "\<exists>d. fst (getVideoByIdForGuest sampleEnv pubId sampleWorld) =
          Inr (200, ApiResponse 200 (PDoc d) ''Video found'') \<and>
        field ''isLiked'' d = B False \<and>
        field ''likesCount'' d = N 2 \<and>
        getPath [''owner'', ''subscribersCount''] (Doc d) = N 1 \<and>
        field ''isSubscribed'' d = Missing \<and>
        getPath [''owner'', ''isSubscribed''] (Doc d) = Missing"
proof -
  have v: "find (\<lambda>v. v_id v = castId sampleEnv pubId \<and> v_isPublished v) (videos (db sampleWorld)) =
             Some pubVideo"
    unfolding sample_cast by (simp add: sample_defs)
  have u: "find (\<lambda>u. u_id u = v_owner pubVideo) (users (db sampleWorld)) = Some alice"
    by (simp add: sample_defs)
  have n: "int (length (filter (\<lambda>l. l_video l = v_id pubVideo) (likes (db sampleWorld)))) = 2"
    "int (length (filter (\<lambda>x. s_channel x = v_owner pubVideo) (subscriptions (db sampleWorld)))) = 1"
    by (simp_all add: sample_defs)
  from guest_detail_counts[OF sample_valid(6) sample_valid(1) v u]
  show ?thesis unfolding n .
qed

subsection \<open>Channel profile\<close>

text \<open>
  Claim C4. The claim asks that \<open>getUserChannelProfile\<close> return, for an existing
  username, the number of subscriptions to the user and the number of subscriptions the
  user holds. The pipeline stores the first lookup under \<open>subcription\<close> and then takes
  \<open>$size\<close> of the field \<open>subscribers\<close>, which no stage sets, and of the string
  \<open>"subscribedTo"\<close>, written without its dollar sign; both lookups read a collection
  named \<open>subcription\<close>. On the sample store the profile of Alice, asked for as
  \<open>Alice\<close> by Bob, is the store's error and no count.
\<close>

theorem channel_profile_of_existing_user:
  "fst (getUserChannelProfile sampleEnv (Some bobId) ''Alice'' sampleWorld) =
     Inl (MongoError SizeNotArray)"
  by (simp add: getUserChannelProfile_result trim_def isSpace_def)
    (simp add: sample_defs toLowerCase_def toLowerChar_def capitals_def smalls_def)

text \<open>
  Claim C5. The claim asks that, with no viewer identity, the profile of an existing
  user carry \<open>isSubscribed = false\<close> and that no membership test be made with the
  absent identity. The pipeline has no guard: its \<open>$in\<close> takes \<open>req.user?._id\<close> as it
  comes, and its second argument is the string \<open>"subscribers.subscriber"\<close>, not an
  array. On the sample store the profile of Alice for an absent viewer is the store's
  error, and the \<open>isSubscribed\<close> expression on its own fails on her document.
\<close>

theorem channel_profile_for_absent_viewer:
  "fst (getUserChannelProfile sampleEnv None ''alice'' sampleWorld) =
     Inl (MongoError SizeNotArray) \<and>
   evalExpr (userDoc alice)
     (Cond (In (Lit (idVal None)) (Lit (S ''subscribers.subscriber'')))
        (Lit (B True)) (Lit (B False))) = Inl InNotArray"
  by (simp add: getUserChannelProfile_result trim_def isSpace_def)
    (simp add: sample_defs toLowerCase_def toLowerChar_def capitals_def smalls_def)

text \<open>
  The failure is not one of the sample: for every username that a stored user has,
  asked for in any casing and by any viewer, the aggregation of the channel profile
  fails at its \<open>$addFields\<close> stage.
\<close>

theorem channel_profile_fails_for_every_user:
  assumes "trim name \<noteq> []"
    and "find (\<lambda>u. u_username u = toLowerCase name) (users (db w)) = Some u"
  shows "fst (getUserChannelProfile E viewer name w) = Inl (MongoError SizeNotArray)"
proof -
  from filter_find_Some[OF assms(2)] obtain us where
    "filter (\<lambda>u. u_username u = toLowerCase name) (users (db w)) = u # us" by blast
  then show ?thesis
    by (simp add: getUserChannelProfile_result[OF assms(1)])
qed

theorem channel_profile_fails_for_every_user_witness:
  "trim ''Bob'' \<noteq> [] \<and>
   find (\<lambda>u. u_username u = toLowerCase ''Bob'') (users (db sampleWorld)) = Some bob \<and>
   fst (getUserChannelProfile sampleEnv (Some aliceId) ''Bob'' sampleWorld) =
     Inl (MongoError SizeNotArray)"
proof -
  have t: "trim ''Bob'' \<noteq> []"
    by (simp add: trim_def isSpace_def)
  have f: "find (\<lambda>u. u_username u = toLowerCase ''Bob'') (users (db sampleWorld)) = Some bob"
    by (simp add: sample_defs toLowerCase_def toLowerChar_def capitals_def smalls_def)
  show ?thesis
    by (intro conjI)
      (rule t f channel_profile_fails_for_every_user[OF t f, of sampleEnv "Some aliceId"])+
qed

subsection \<open>Listing\<close>

text \<open>
  Claim C6. For every query, \<open>getAllVideos\<close> fails with the validation error
  \<open>Invalid userId\<close> when an owner is given and is not a valid identifier, and otherwise
  replies with the page of the videos taken through the six steps in this order:
  full-text search over title and description when a query is given, the owner filter
  when an owner is given, the published-only filter, the sort (by the requested field,
  ascending when \<open>sortType\<close> is \<open>asc\<close> and descending otherwise, when both are given;
  by creation time descending otherwise), the owner join that puts the projection of
  \<open>username\<close> and \<open>avatar.url\<close> of the owner under \<open>ownerDetails\<close> as one object
  (the projection keeps \<open>_id\<close>, as every inclusion projection of the store does), and
  the page.
\<close>

theorem getAllVideos_stage_order:
  "getAllVideos E q w =
     (if given (userId q) \<and> \<not> isValidObjectId E (str (userId q))
      then (Inl (ApiError 400 ''Invalid userId''), w)
      else (Inr (200, ApiResponse 200 (PPage (feed E q (db w))) ''Videos fetched successfully''),
            logCall (AggregatePaginate ''videos'') w))"
  by (rule getAllVideos_feed)

theorem getAllVideos_stage_order_witness:
  "getAllVideos sampleEnv allQuery sampleWorld =
     (Inr (200, ApiResponse 200 (PPage (feed sampleEnv allQuery sampleStore))
             ''Videos fetched successfully''),
      logCall (AggregatePaginate ''videos'') sampleWorld) \<and>
   getAllVideos sampleEnv badOwnerQuery sampleWorld =
     (Inl (ApiError 400 ''Invalid userId''), sampleWorld)"
  using getAllVideos_stage_order[of sampleEnv allQuery sampleWorld]
    getAllVideos_stage_order[of sampleEnv badOwnerQuery sampleWorld] sample_valid(4)
  by (simp add: allQuery_def badOwnerQuery_def given_def str_def)
    (simp add: sampleEnv_def sampleWorld_def)

text \<open>
  Claim C7. Whatever the search query, the sort, the owner filter and the pagination
  parameters, every video in the page \<open>getAllVideos\<close> replies with has
  \<open>isPublished = true\<close>, provided the pagination plugin returns documents of the
  aggregation and no others.
\<close>

theorem getAllVideos_published_only:
  assumes "\<And>p l ds. set (aggregatePaginate E p l ds) \<subseteq> set ds"
    and "fst (getAllVideos E q w) = Inr (code, ApiResponse c (PPage vs) msg)"
  shows "\<forall>d \<in> set vs. field ''isPublished'' d = B True"
proof
  fix d assume "d \<in> set vs"
  moreover from assms(2) have "vs = feed E q (db w)"
    by (simp add: getAllVideos_feed split: if_splits)
  ultimately show "field ''isPublished'' d = B True"
    using feed_published[OF assms(1)] by blast
qed

theorem getAllVideos_published_only_witness:
  "feed sampleEnv allQuery sampleStore \<noteq> [] \<and>
   list_all (\<lambda>d. field ''isPublished'' d = B True) (feed sampleEnv allQuery sampleStore)"
proof -
  have p: "\<And>p l ds. set (aggregatePaginate sampleEnv p l ds) \<subseteq> set ds"
    by (simp add: sampleEnv_def samplePaginate_subset)
  have r: "fst (getAllVideos sampleEnv allQuery sampleWorld) =
             Inr (200, ApiResponse 200 (PPage (feed sampleEnv allQuery sampleStore))
                    ''Videos fetched successfully'')"
    using sample_valid(4)
    by (simp add: getAllVideos_feed allQuery_def given_def str_def) (simp add: sampleWorld_def)
  from getAllVideos_published_only[OF p r]
  show ?thesis by (simp add: list_all_iff sample_feed)
qed


subsection \<open>Deleting a video\<close>

text \<open>
  Claim C8. The claim asks that \<open>deleteVideo\<close> run its cascade after the checked
  delete of the video, and that a detail fetch of the deleted video then return
  Not-Found. The detail of a video is fetched by \<open>getVideoById\<close> and by
  \<open>getVideoByIdForGuest\<close>, and the second never fails with Not-Found: it guards its
  404 with \<open>!video\<close> on the array the aggregation returns. On the sample store the
  delete of Alice's published video succeeds and leaves her draft alone; the guest
  fetch of the deleted video then replies with status 200 and an undefined payload,
  where \<open>getVideoById\<close> fails with Not-Found.
\<close>

theorem detail_fetch_after_delete:
  "fst (deleteVideo sampleEnv (\<lambda>s. s) pubId sampleWorld) =
     Inr (200, ApiResponse 200 PNull ''Video deleted successfully'') \<and>
   videos (db (snd (deleteVideo sampleEnv (\<lambda>s. s) pubId sampleWorld))) = [draftVideo] \<and>
   fst (getVideoByIdForGuest sampleEnv pubId
          (snd (deleteVideo sampleEnv (\<lambda>s. s) pubId sampleWorld))) =
     Inr (200, ApiResponse 200 Undefined ''Video found'') \<and>
   fst (getVideoById sampleEnv None (Some bobId) pubId
          (snd (deleteVideo sampleEnv (\<lambda>s. s) pubId sampleWorld))) =
     Inl (ApiError 404 ''Video not found'')"
proof -
  have f: "fileId (v_video pubVideo) \<noteq> []" "fileId (v_thumbnail pubVideo) \<noteq> []"
    by (simp_all add: pubVideo_def)
  note d = deleteVideo_success[where others = "\<lambda>s. s", OF sample_valid(1) sample_find(1)
      sample_find(1) f, unfolded sample_cast]
  have v: "removeFirst (\<lambda>v. v_id v = pubId) (videos (db sampleWorld)) = [draftVideo]"
    by (simp add: sample_defs)
  have s1: "fst (deleteVideo sampleEnv (\<lambda>s. s) pubId sampleWorld) =
     Inr (200, ApiResponse 200 PNull ''Video deleted successfully'')"
    unfolding d by simp
  have s2: "videos (db (snd (deleteVideo sampleEnv (\<lambda>s. s) pubId sampleWorld))) = [draftVideo]"
    unfolding d by (simp add: v)
  have n: "v_id draftVideo \<noteq> pubId"
    by (simp add: draftVideo_def draftId_def pubId_def)
  have s3: "fst (getVideoByIdForGuest sampleEnv pubId
          (snd (deleteVideo sampleEnv (\<lambda>s. s) pubId sampleWorld))) =
     Inr (200, ApiResponse 200 Undefined ''Video found'')"
    by (simp add: getVideoByIdForGuest_result[OF sample_valid(6) sample_valid(1)]
        sample_cast s2 n firstDoc_def)
  have s4: "fst (getVideoById sampleEnv None (Some bobId) pubId
          (snd (deleteVideo sampleEnv (\<lambda>s. s) pubId sampleWorld))) =
     Inl (ApiError 404 ''Video not found'')"
    by (simp add: getVideoById_result[OF sample_valid(6) sample_valid(1)] sample_cast s2 n)
  show ?thesis
    by (intro conjI) (rule s1 s2 s3 s4)+
qed

text \<open>
  The cascade itself. For a video that exists and whose two media objects have file
  identifiers, \<open>deleteVideo\<close> reads the video, deletes it and checks the result, and
  only then asks the media provider to destroy the video file and the thumbnail and
  removes every like and every comment that references the video, in this order of
  calls; a detail fetch of the deleted video through \<open>getVideoById\<close> then fails with
  Not-Found. When the delete itself fails, because another request has removed the
  video between the read and the delete, the handler fails with status 500, has changed
  nothing in the store and has issued no cascade call.
\<close>

theorem deleteVideo_cascade:
  fixes others :: "store \<Rightarrow> store"
  assumes "trim i \<noteq> []" "isValidObjectId E i"
    and "find (\<lambda>v. v_id v = castId E i) (videos (db w)) = Some v"
    and "fileId (v_video v) \<noteq> []" "fileId (v_thumbnail v) \<noteq> []"
  shows "(find (\<lambda>v. v_id v = castId E i) (videos (others (db w))) \<noteq> None \<and>
          distinct (map v_id (videos (others (db w)))) \<longrightarrow>
           (let r = fst (deleteVideo E others i w); w' = snd (deleteVideo E others i w)
            in r = Inr (200, ApiResponse 200 PNull ''Video deleted successfully'') \<and>
               likes (db w') = filter (\<lambda>l. l_video l \<noteq> castId E i) (likes (others (db w))) \<and>
               comments (db w') = filter (\<lambda>c. c_video c \<noteq> castId E i) (comments (others (db w))) \<and>
               (\<forall>l \<in> set (likes (db w')). l_video l \<noteq> castId E i) \<and>
               (\<forall>c \<in> set (comments (db w')). c_video c \<noteq> castId E i) \<and>
               calls w' = calls w @
                 [FindById ''videos'' i, FindByIdAndDelete ''videos'' (castId E i),
                  Destroy (fileId (v_video v)), Destroy (fileId (v_thumbnail v)),
                  DeleteMany ''likes'' (castId E i), DeleteMany ''comments'' (castId E i)] \<and>
               fst (getVideoById E guest viewer i w') = Inl (ApiError 404 ''Video not found''))) \<and>
         (find (\<lambda>v. v_id v = castId E i) (videos (others (db w))) = None \<longrightarrow>
           (let r = fst (deleteVideo E others i w); w' = snd (deleteVideo E others i w)
            in r = Inl (ApiError 500 ''Video deletion failed'') \<and>
               db w' = others (db w) \<and>
               calls w' = calls w @ [FindById ''videos'' i, FindByIdAndDelete ''videos'' (castId E i)]))"
proof (intro conjI impI)
  assume a: "find (\<lambda>v. v_id v = castId E i) (videos (others (db w))) \<noteq> None \<and>
             distinct (map v_id (videos (others (db w))))"
  then obtain v' where v': "find (\<lambda>v. v_id v = castId E i) (videos (others (db w))) = Some v'"
    by blast
  note eq = deleteVideo_success[where others = others, OF assms(2,3) v' assms(4,5)]
  have gone: "filter (\<lambda>v. v_id v = castId E i) (removeFirst (\<lambda>v. v_id v = castId E i) (videos (others (db w)))) = []"
    using a by (simp add: find_removeFirst_distinct)
  show "let r = fst (deleteVideo E others i w); w' = snd (deleteVideo E others i w)
            in r = Inr (200, ApiResponse 200 PNull ''Video deleted successfully'') \<and>
               likes (db w') = filter (\<lambda>l. l_video l \<noteq> castId E i) (likes (others (db w))) \<and>
               comments (db w') = filter (\<lambda>c. c_video c \<noteq> castId E i) (comments (others (db w))) \<and>
               (\<forall>l \<in> set (likes (db w')). l_video l \<noteq> castId E i) \<and>
               (\<forall>c \<in> set (comments (db w')). c_video c \<noteq> castId E i) \<and>
               calls w' = calls w @
                 [FindById ''videos'' i, FindByIdAndDelete ''videos'' (castId E i),
                  Destroy (fileId (v_video v)), Destroy (fileId (v_thumbnail v)),
                  DeleteMany ''likes'' (castId E i), DeleteMany ''comments'' (castId E i)] \<and>
               fst (getVideoById E guest viewer i w') = Inl (ApiError 404 ''Video not found'')"
    unfolding eq Let_def
    by (simp add: getVideoById_result[OF assms(1,2)] gone)
next
  assume none: "find (\<lambda>v. v_id v = castId E i) (videos (others (db w))) = None"
  show "let r = fst (deleteVideo E others i w); w' = snd (deleteVideo E others i w)
            in r = Inl (ApiError 500 ''Video deletion failed'') \<and>
               db w' = others (db w) \<and>
               calls w' = calls w @ [FindById ''videos'' i, FindByIdAndDelete ''videos'' (castId E i)]"
    unfolding deleteVideo_failed[where others = others, OF assms(2,3) none] Let_def
    by (simp add: removeFirst_none[OF none])
qed

text \<open>
  On the sample store: deleting Alice's published video alone, and deleting it after
  another request has removed every video.
\<close>

theorem deleteVideo_cascade_witness:
  "fst (deleteVideo sampleEnv (\<lambda>s. s) pubId sampleWorld) =
     Inr (200, ApiResponse 200 PNull ''Video deleted successfully'') \<and>
   likes (db (snd (deleteVideo sampleEnv (\<lambda>s. s) pubId sampleWorld))) = [] \<and>
   comments (db (snd (deleteVideo sampleEnv (\<lambda>s. s) pubId sampleWorld))) = [] \<and>
   calls (snd (deleteVideo sampleEnv (\<lambda>s. s) pubId sampleWorld)) =
     [FindById ''videos'' pubId, FindByIdAndDelete ''videos'' pubId,
      Destroy ''vid-1'', Destroy ''thumb-1'',
      DeleteMany ''likes'' pubId, DeleteMany ''comments'' pubId] \<and>
   fst (getVideoById sampleEnv None (Some bobId) pubId
          (snd (deleteVideo sampleEnv (\<lambda>s. s) pubId sampleWorld))) =
     Inl (ApiError 404 ''Video not found'') \<and>
   fst (deleteVideo sampleEnv dropVideos pubId sampleWorld) =
     Inl (ApiError 500 ''Video deletion failed'') \<and>
   db (snd (deleteVideo sampleEnv dropVideos pubId sampleWorld)) = dropVideos sampleStore \<and>
   calls (snd (deleteVideo sampleEnv dropVideos pubId sampleWorld)) =
     [FindById ''videos'' pubId, FindByIdAndDelete ''videos'' pubId]"
proof -
  have f: "fileId (v_video pubVideo) \<noteq> []" "fileId (v_thumbnail pubVideo) \<noteq> []"
    by (simp_all add: pubVideo_def)
  have g: "fileId (v_video pubVideo) = ''vid-1''" "fileId (v_thumbnail pubVideo) = ''thumb-1''"
    by (simp_all add: pubVideo_def)
  note t = deleteVideo_cascade[OF sample_valid(6) sample_valid(1) sample_find(1) f,
      where guest = None and viewer = "Some bobId"]
  have ok: "find (\<lambda>v. v_id v = castId sampleEnv pubId) (videos (db sampleWorld)) \<noteq> None \<and>
            distinct (map v_id (videos (db sampleWorld)))"
    unfolding sample_cast by (simp add: sample_defs)
  have gone: "find (\<lambda>v. v_id v = castId sampleEnv pubId) (videos (dropVideos (db sampleWorld))) =
              None"
    by (simp add: dropVideos_def)
  have l: "filter (\<lambda>l. l_video l \<noteq> pubId) (likes (db sampleWorld)) = []"
          "filter (\<lambda>c. c_video c \<noteq> pubId) (comments (db sampleWorld)) = []"
    by (simp_all add: sample_defs)
  have e: "calls sampleWorld = []" "db sampleWorld = sampleStore"
    by (simp_all add: sampleWorld_def)
  note t1 = t[where others = "\<lambda>s. s", THEN conjunct1, THEN mp, OF ok, unfolded Let_def
      sample_cast]
  note t2 = t[where others = dropVideos, THEN conjunct2, THEN mp, OF gone, unfolded Let_def
      sample_cast]
  have s1: "fst (deleteVideo sampleEnv (\<lambda>s. s) pubId sampleWorld) =
     Inr (200, ApiResponse 200 PNull ''Video deleted successfully'')"
    using t1 by simp
  have s2: "likes (db (snd (deleteVideo sampleEnv (\<lambda>s. s) pubId sampleWorld))) = []"
    using t1 by (simp add: l)
  have s3: "comments (db (snd (deleteVideo sampleEnv (\<lambda>s. s) pubId sampleWorld))) = []"
    using t1 by (simp add: l)
  have s4: "calls (snd (deleteVideo sampleEnv (\<lambda>s. s) pubId sampleWorld)) =
     [FindById ''videos'' pubId, FindByIdAndDelete ''videos'' pubId,
      Destroy ''vid-1'', Destroy ''thumb-1'',
      DeleteMany ''likes'' pubId, DeleteMany ''comments'' pubId]"
    using t1 by (simp add: e g)
  have s5: "fst (getVideoById sampleEnv None (Some bobId) pubId
          (snd (deleteVideo sampleEnv (\<lambda>s. s) pubId sampleWorld))) =
     Inl (ApiError 404 ''Video not found'')"
    using t1 by simp
  have s6: "fst (deleteVideo sampleEnv dropVideos pubId sampleWorld) =
     Inl (ApiError 500 ''Video deletion failed'')"
    using t2 by simp
  have s7: "db (snd (deleteVideo sampleEnv dropVideos pubId sampleWorld)) = dropVideos sampleStore"
    using t2 by (simp add: e)
  have s8: "calls (snd (deleteVideo sampleEnv dropVideos pubId sampleWorld)) =
     [FindById ''videos'' pubId, FindByIdAndDelete ''videos'' pubId]"
    using t2 by (simp add: e)
  show ?thesis
    by (intro conjI) (rule s1 s2 s3 s4 s5 s6 s7 s8)+
qed

subsection \<open>Validation\<close>

text \<open>
  Claim C9, as stated, asks that every malformed identifier and every malformed
  pagination parameter be rejected with a validation error before any call to the
  store. Pagination parameters are not validated anywhere: \<open>getAllVideos\<close> parses
  \<open>page\<close> and \<open>limit\<close> with \<open>parseInt\<close> and hands the results to the pagination
  plugin. On the sample store the listing with \<open>page = abc\<close> and \<open>limit = ten\<close>,
  neither of which parses, succeeds and calls the store.
\<close>

theorem malformed_page_is_accepted:
  "parseInt ''abc'' = None \<and> parseInt ''ten'' = None \<and>
   fst (getAllVideos sampleEnv badPageQuery sampleWorld) =
     Inr (200, ApiResponse 200 (PPage (feed sampleEnv badPageQuery sampleStore))
            ''Videos fetched successfully'') \<and>
   calls (snd (getAllVideos sampleEnv badPageQuery sampleWorld)) = [AggregatePaginate ''videos'']"
  by (simp add: getAllVideos_feed badPageQuery_def given_def str_def logCall_def parseInt_def
      isSpace_def isDigit_def)
    (simp add: sampleWorld_def)

text \<open>
  Claim C9, amended. A malformed video identifier is rejected by
  \<open>getVideoByIdForGuest\<close>, \<open>getVideoById\<close> and \<open>updateVideoViews\<close>, and a malformed
  owner identifier by \<open>getAllVideos\<close>, with a validation error of status 400, the
  world returned as it was given: no call to the store is issued. Pagination parameters
  are not validated: when no owner is given \<open>getAllVideos\<close> succeeds whatever \<open>page\<close>
  and \<open>limit\<close> are, handing \<open>parseInt\<close> of each to the pagination plugin.
\<close>

theorem malformed_identifier_rejected:
  assumes "\<not> isValidObjectId E i"
  shows "getVideoByIdForGuest E i w =
           (Inl (ApiError 400 (if trim i = [] then ''Video Id is missing'' else ''Invalid VideoID'')), w) \<and>
         getVideoById E guest viewer i w =
           (Inl (ApiError 400 (if trim i = [] then ''Video Id is missing'' else ''Invalid VideoID'')), w) \<and>
         updateVideoViews E now viewer i w = (Inl (ApiError 400 ''Invalid videoId''), w) \<and>
         (given (userId q) \<and> str (userId q) = i \<longrightarrow>
            getAllVideos E q w = (Inl (ApiError 400 ''Invalid userId''), w)) \<and>
         (\<not> given (userId q) \<longrightarrow>
            getAllVideos E q w =
              (Inr (200, ApiResponse 200
                      (PPage (aggregatePaginate E (parseParam (page q) 1) (parseParam (limit q) 10)
                         (joinStep (db w) (sortStep E q (publishedStep (ownerStep E q
                            (searchStep E q (map videoDoc (videos (db w))))))))))
                      ''Videos fetched successfully''),
               logCall (AggregatePaginate ''videos'') w))"
  using assms
  by (simp add: getVideoByIdForGuest_invalid getVideoById_invalid updateVideoViews_invalid
      getAllVideos_feed feed_def pageStep_def)

theorem malformed_identifier_rejected_witness:
  "\<not> isValidObjectId sampleEnv ''not-an-id'' \<and>
   getVideoByIdForGuest sampleEnv ''not-an-id'' sampleWorld =
     (Inl (ApiError 400 ''Invalid VideoID''), sampleWorld) \<and>
   getVideoById sampleEnv None (Some bobId) ''not-an-id'' sampleWorld =
     (Inl (ApiError 400 ''Invalid VideoID''), sampleWorld) \<and>
   updateVideoViews sampleEnv 200 (Some bobId) ''not-an-id'' sampleWorld =
     (Inl (ApiError 400 ''Invalid videoId''), sampleWorld) \<and>
   getAllVideos sampleEnv badOwnerQuery sampleWorld =
     (Inl (ApiError 400 ''Invalid userId''), sampleWorld) \<and>
   calls (snd (getAllVideos sampleEnv badPageQuery sampleWorld)) = [AggregatePaginate ''videos'']"
proof -
  have n: "\<not> isValidObjectId sampleEnv ''not-an-id''"
    by (simp add: sampleEnv_def)
  have t: "trim ''not-an-id'' \<noteq> []"
    by (simp add: trim_def isSpace_def)
  from malformed_identifier_rejected[OF n, of sampleWorld None "Some bobId" 200 badOwnerQuery]
    malformed_identifier_rejected[OF n, of sampleWorld None "Some bobId" 200 badPageQuery] n t
  show ?thesis
    by (simp add: badOwnerQuery_def badPageQuery_def given_def str_def logCall_def)
      (simp add: sampleWorld_def)
qed

subsection \<open>Video detail for signed-in callers\<close>

text \<open>
  Claim C10. Whenever a video with the given identifier exists, \<open>getVideoById\<close>
  replies with its detail record: identifier, media URL, title, description, view
  count, like count and the rest of \<open>detailRecord\<close>. Nothing is asked of the video's
  published flag, of the viewer or of the \<open>guest\<close> parameter, so an unpublished video
  is visible through this handler to viewers other than its owner.
\<close>

theorem getVideoById_ignores_published:
  assumes "trim i \<noteq> []" "isValidObjectId E i"
    and "find (\<lambda>v. v_id v = castId E i) (videos (db w)) = Some v"
  shows "fst (getVideoById E guest viewer i w) =
           Inr (200, ApiResponse 200
                  (PDoc (detailRecord (db w) (guest = Some ''true'') viewer v)) ''Video found'') \<and>
         field ''_id'' (detailRecord (db w) (guest = Some ''true'') viewer v) = Id (castId E i) \<and>
         field ''title'' (detailRecord (db w) (guest = Some ''true'') viewer v) = S (v_title v) \<and>
         field ''description'' (detailRecord (db w) (guest = Some ''true'') viewer v) =
           S (v_description v) \<and>
         field ''views'' (detailRecord (db w) (guest = Some ''true'') viewer v) = N (v_views v) \<and>
         getPath [''video'', ''url''] (Doc (detailRecord (db w) (guest = Some ''true'') viewer v)) =
           S (url (v_video v)) \<and>
         field ''likesCount'' (detailRecord (db w) (guest = Some ''true'') viewer v) =
           N (int (length (filter (\<lambda>l. l_video l = castId E i) (likes (db w)))))"
  using getVideoById_returns[OF assms] find_Some_holds[OF assms(3)]
  by (simp add: detailRecord_def likesOf_def split: list.splits)

text \<open>
  On the sample store: Bob, flagged as a guest, fetches Alice's unpublished video.
\<close>

theorem getVideoById_ignores_published_witness:
  "trim draftId \<noteq> [] \<and> isValidObjectId sampleEnv draftId \<and>
   find (\<lambda>v. v_id v = castId sampleEnv draftId) (videos (db sampleWorld)) = Some draftVideo \<and>
   v_isPublished draftVideo = False \<and> v_owner draftVideo \<noteq> bobId \<and>
   fst (getVideoById sampleEnv (Some ''true'') (Some bobId) draftId sampleWorld) =
     Inr (200, ApiResponse 200
       (PDoc [(''_id'', Id draftId),
              (''video'', Doc [(''url'', S ''https://cdn/vid-2'')]),
              (''title'', S ''Draft''),
              (''description'', S ''Not yet out''),
              (''duration'', N 30),
              (''views'', N 0),
              (''owner'', Doc [(''_id'', Id aliceId), (''username'', S ''alice''),
                               (''fullName'', S ''Alice''),
                               (''avatar'', Doc [(''url'', S ''https://cdn/av-1'')]),
                               (''subscribersCount'', N 1), (''isSubscribed'', B False)]),
              (''createdAt'', N 2000),
              (''likesCount'', N 0),
              (''isLiked'', B False)])
       ''Video found'')"
proof -
  have d: "detailRecord (db sampleWorld) (Some ''true'' = Some ''true'') (Some bobId) draftVideo =
             [(''_id'', Id draftId),
              (''video'', Doc [(''url'', S ''https://cdn/vid-2'')]),
              (''title'', S ''Draft''),
              (''description'', S ''Not yet out''),
              (''duration'', N 30),
              (''views'', N 0),
              (''owner'', Doc [(''_id'', Id aliceId), (''username'', S ''alice''),
                               (''fullName'', S ''Alice''),
                               (''avatar'', Doc [(''url'', S ''https://cdn/av-1'')]),
                               (''subscribersCount'', N 1), (''isSubscribed'', B False)]),
              (''createdAt'', N 2000),
              (''likesCount'', N 0),
              (''isLiked'', B False)]"
    by (simp add: detailRecord_def ownerDetail_def likesOf_def subscribersOf_def viewerIn_def
        sampleWorld_def sampleStore_def draftVideo_def pubVideo_def alice_def bob_def
        aliceId_def bobId_def pubId_def draftId_def)
  have p: "v_isPublished draftVideo = False" "v_owner draftVideo \<noteq> bobId"
    by (simp_all add: draftVideo_def aliceId_def bobId_def)
  from getVideoById_ignores_published[OF sample_valid(7) sample_valid(2) sample_find(2),
      of "Some ''true''" "Some bobId"]
  have r: "fst (getVideoById sampleEnv (Some ''true'') (Some bobId) draftId sampleWorld) =
          Inr (200, ApiResponse 200
             (PDoc (detailRecord (db sampleWorld) (Some ''true'' = Some ''true'') (Some bobId)
                draftVideo)) ''Video found'')"
    by (rule conjunct1)
  show ?thesis
    by (intro conjI) (rule sample_valid(7) sample_valid(2) sample_find(2) p r[unfolded d])+
qed

end
